theory Spec2Isabelle
  imports Main
begin

section \<open>The editor window of the behavior tree editor (bt\_editor/mainwindow.cpp)\<close>

text \<open>
  The development follows \<^verbatim>\<open>MainWindow\<close> of \<^verbatim>\<open>src/bt_editor/mainwindow.cpp\<close>:
  the undo/redo store (\<^verbatim>\<open>_undo_stack\<close>, \<^verbatim>\<open>_redo_stack\<close>, \<^verbatim>\<open>_current_state\<close>), the
  handlers that load, save, restore and re-lay-out the scene, and the check that enables
  the tool buttons. Member functions become functions from the window's state to its new
  state. Functions and classes that the file calls and does not define (the flow scene,
  \<^verbatim>\<open>utils.h\<close>, \<^verbatim>\<open>XML_utilities.hpp\<close>, tinyxml2) are parameters, gathered in the
  record \<open>env\<close>: every theorem below holds for whatever these collaborators compute.
\<close>

subsection \<open>Data\<close>

datatype GraphicMode = EDITOR | MONITOR | REPLAY

datatype PortLayout = Horizontal | Vertical

text \<open>\<^verbatim>\<open>std::runtime_error\<close> and \<^verbatim>\<open>std::logic_error\<close> are the two exception classes that
  \<^verbatim>\<open>loadFromXML\<close> catches; any other exception passes through its handlers.\<close>

datatype exception =
    is_runtime_error: runtime_error (what: string)
  | is_logic_error: logic_error (what: string)
  | other_exception (what: string)

text \<open>How a call ends when it does not return: an exception no handler caught, or the
  dereference of a null pointer (undefined behaviour in C++, kept as a result of its own).\<close>

datatype abort = Uncaught exception | NullDereference

text \<open>The tinyxml2 document tree: elements with a name, attributes in order and children in
  order, and comments.\<close>

datatype XMLNode =
    XMLElement (Name: string) (Attributes: "(string \<times> string) list") (Children: "XMLNode list")
  | XMLComment (Value: string)

text \<open>A tinyxml2 \<^verbatim>\<open>XMLDocument\<close> after \<^verbatim>\<open>Parse\<close>: the error code (\<open>0\<close> is
  \<^verbatim>\<open>XML_SUCCESS\<close>) and \<^verbatim>\<open>RootElement()\<close>, null when the document has no element.\<close>

record XMLDocument =
  ErrorID :: nat
  RootElement :: "XMLNode option"

datatype NodeType = ROOT | CONTROL | DECORATOR | ACTION | SUBTREE

text \<open>\<^verbatim>\<open>TreeNodeModel\<close>: the category of a node model and its parameters (label and the
  name of the parameter's type), in the iteration order of the \<^verbatim>\<open>std::map\<close>.
  \<^verbatim>\<open>TreeNodeModels\<close> maps a registration ID to its model, again in iteration order.\<close>

record TreeNodeModel =
  node_type :: NodeType
  params :: "(string \<times> string) list"

type_synonym TreeNodeModels = "(string \<times> TreeNodeModel) list"

text \<open>\<^verbatim>\<open>QtNodes::DataModelRegistry\<close>: the names of the registered node models, each with its
  category. The window and the scenes of its tabs share one registry (lines 61 and 120).\<close>

type_synonym DataModelRegistry = "(string \<times> NodeType) list"

datatype Dialog = Warning string string | Critical string string

text \<open>A \<^verbatim>\<open>GraphicContainer\<close> (one per tab): its scene, whether its signals are blocked
  (\<^verbatim>\<open>QObject::blockSignals\<close>) and whether editing is locked.\<close>

record 's GraphicContainer =
  scene :: 's
  signalsBlocked :: bool
  editingLocked :: bool

text \<open>
  The members of \<^verbatim>\<open>MainWindow\<close> that the handlers read or write. \<^verbatim>\<open>currentTabInfo()\<close>
  is the container of the tab that the tab widget shows: \<open>current_tab\<close>; the other
  entries of \<^verbatim>\<open>_tab_info\<close> are \<open>other_tabs\<close>. The stacks are \<^verbatim>\<open>std::deque\<close>s used
  at the back: \<^verbatim>\<open>push_back x\<close> is \<open>xs @ [x]\<close>, \<^verbatim>\<open>back()\<close> is \<open>last xs\<close>,
  \<^verbatim>\<open>pop_back()\<close> is \<open>butlast xs\<close>. The type \<open>'b\<close> is \<^verbatim>\<open>QByteArray\<close>, compared by
  value. Of the widgets, the state keeps what the handlers set: the enabled flags, the
  tool tip of the semaphore, the icon of the layout button and the message boxes shown.
\<close>

record ('s, 'b) MainWindow =
  current_mode :: GraphicMode
  current_layout :: PortLayout
  undo_enabled :: bool
  undo_stack :: "'b list"
  redo_stack :: "'b list"
  current_state :: 'b
  model_registry :: DataModelRegistry
  tree_nodes_model :: TreeNodeModels
  current_tab :: "'s GraphicContainer"
  other_tabs :: "(string \<times> 's GraphicContainer) list"
  toolButtonLayout_enabled :: bool
  toolButtonReorder_enabled :: bool
  actionSave_enabled :: bool
  labelSemaphore_toolTip :: string
  toolButtonLayout_icon :: string
  dialogs :: "Dialog list"

text \<open>
  The collaborators: \<open>'s\<close> is \<^verbatim>\<open>QtNodes::FlowScene\<close>, \<open>'n\<close> is \<^verbatim>\<open>QtNodes::Node\<close>,
  \<open>'t\<close> is \<^verbatim>\<open>AbsBehaviorTree\<close>, \<open>'b\<close> is \<^verbatim>\<open>QByteArray\<close>.
  \<^item> \<open>findRoots\<close>, \<open>getChildren\<close>, \<open>BuildBehaviorTreeFromScene\<close>,
    \<open>BuildSceneFromBehaviorTree\<close>, \<open>NodeReorder\<close>: \<^verbatim>\<open>utils.h\<close>;
  \<^item> \<open>isRootNodeModel n\<close>: \<^verbatim>\<open>dynamic_cast<RootNodeModel*>(n->nodeDataModel())\<close> is not null;
  \<^item> \<open>clearScene\<close>, \<open>saveToMemory\<close>, \<open>loadFromMemory\<close>, \<open>layout\<close>, \<open>setLayout\<close>:
    members of the scene; a scene that is changed in place is returned changed;
  \<^item> \<open>nodeReorder\<close>: \<^verbatim>\<open>GraphicContainer::nodeReorder\<close>, as a change of the container's scene;
  \<^item> \<open>RecursivelyCreateXml sc parent n\<close>: the element \<open>parent\<close> after the call has
    written the node \<open>n\<close> and its descendants under it;
    \<open>ReadTreeNodesModel root registry models\<close>: the registry and the models after the call,
    and the exception it threw, if any; \<open>CreateTreeInSceneFromXML bt registry sc\<close>: the
    scene after the call and the exception it threw, if any, where \<open>registry\<close> is the
    registry that the scene shares with the window (\<^verbatim>\<open>XML_utilities.hpp\<close>);
  \<^item> \<open>toStr\<close>: the name of a node category;
  \<^item> \<open>Print\<close>: the text that tinyxml2's \<^verbatim>\<open>XMLPrinter\<close> gives for a document;
  \<^item> \<open>emissions old new\<close>: how many \<^verbatim>\<open>undoableChange\<close> signals a container emits when its
    scene changes from \<open>old\<close> to \<open>new\<close>.
\<close>

record ('s, 'n, 't, 'b) env =
  findRoots :: "'s \<Rightarrow> 'n list"
  getChildren :: "'s \<Rightarrow> 'n \<Rightarrow> 'n list"
  isRootNodeModel :: "'n \<Rightarrow> bool"
  clearScene :: "'s \<Rightarrow> 's"
  saveToMemory :: "'s \<Rightarrow> 'b"
  loadFromMemory :: "'s \<Rightarrow> 'b \<Rightarrow> 's"
  layout :: "'s \<Rightarrow> PortLayout"
  setLayout :: "PortLayout \<Rightarrow> 's \<Rightarrow> 's"
  BuildBehaviorTreeFromScene :: "'s \<Rightarrow> 't"
  BuildSceneFromBehaviorTree :: "'s \<Rightarrow> 't \<Rightarrow> 's"
  NodeReorder :: "'s \<Rightarrow> 't \<Rightarrow> 's"
  nodeReorder :: "'s \<Rightarrow> 's"
  RecursivelyCreateXml :: "'s \<Rightarrow> XMLNode \<Rightarrow> 'n \<Rightarrow> XMLNode"
  ReadTreeNodesModel ::
    "XMLNode option \<Rightarrow> DataModelRegistry \<Rightarrow> TreeNodeModels
       \<Rightarrow> (DataModelRegistry \<times> TreeNodeModels) \<times> exception option"
  CreateTreeInSceneFromXML ::
    "XMLNode option \<Rightarrow> DataModelRegistry \<Rightarrow> 's \<Rightarrow> 's \<times> exception option"
  toStr :: "NodeType \<Rightarrow> string"
  Print :: "XMLNode \<Rightarrow> string"
  emissions :: "'s \<Rightarrow> 's \<Rightarrow> nat"

subsection \<open>Signals and the scene-changed check\<close>

text \<open>\<^verbatim>\<open>MainWindow::onSceneChanged\<close> (lines 350-374).\<close>

definition onSceneChanged ::
  "('s, 'n, 't, 'b) env \<Rightarrow> ('s, 'b) MainWindow \<Rightarrow> ('s, 'b) MainWindow" where
  "onSceneChanged E st =
     (let valid_BT = (length (findRoots E (scene (current_tab st))) = 1)
      in st\<lparr>toolButtonLayout_enabled := valid_BT,
            toolButtonReorder_enabled := valid_BT,
            actionSave_enabled := valid_BT,
            labelSemaphore_toolTip := (if valid_BT then ''Valid Tree'' else ''NOT a valid Tree'')\<rparr>)"

text \<open>\<^verbatim>\<open>currentTabInfo()->blockSignals(b)\<close>.\<close>

definition blockSignals :: "bool \<Rightarrow> ('s, 'b) MainWindow \<Rightarrow> ('s, 'b) MainWindow" where
  "blockSignals b st = st\<lparr>current_tab := (current_tab st)\<lparr>signalsBlocked := b\<rparr>\<rparr>"

text \<open>A scope that opens with \<^verbatim>\<open>const QSignalBlocker blocker( currentTabInfo() )\<close>: the
  signals of the current container are blocked while \<open>body\<close> runs, and the flag found at
  the start is put back at the end of the scope.\<close>

definition QSignalBlocker ::
  "(('s, 'b) MainWindow \<Rightarrow> ('s, 'b) MainWindow) \<Rightarrow> ('s, 'b) MainWindow \<Rightarrow> ('s, 'b) MainWindow" where
  "QSignalBlocker body st =
     (let was_blocked = signalsBlocked (current_tab st)
      in blockSignals was_blocked (body (blockSignals True st)))"

text \<open>\<^verbatim>\<open>MainWindow::onPushUndo\<close> (lines 447-469). \<^verbatim>\<open>scene()->update()\<close> schedules a repaint
  and leaves the scene as it is. When the stack is empty the disjunction holds whatever
  \<open>last\<close> gives, as in the source, where \<^verbatim>\<open>back()\<close> is not evaluated then.\<close>

definition onPushUndo ::
  "('s, 'n, 't, 'b) env \<Rightarrow> ('s, 'b) MainWindow \<Rightarrow> ('s, 'b) MainWindow" where
  "onPushUndo E st =
     (if \<not> undo_enabled st then st
      else QSignalBlocker (\<lambda>st.
        let st = st\<lparr>undo_enabled := False\<rparr>;
            state = saveToMemory E (scene (current_tab st));
            st = (if undo_stack st = [] \<or>
                     (state \<noteq> current_state st \<and> last (undo_stack st) \<noteq> current_state st)
                  then st\<lparr>undo_stack := undo_stack st @ [current_state st], redo_stack := []\<rparr>
                  else st);
            st = st\<lparr>current_state := state\<rparr>
        in st\<lparr>undo_enabled := True\<rparr>) st)"

text \<open>The signal \<^verbatim>\<open>GraphicContainer::undoableChange\<close> of the current container. In
  \<^verbatim>\<open>createTab\<close> (lines 129-133) it is connected to \<^verbatim>\<open>onPushUndo\<close> and then to
  \<^verbatim>\<open>onSceneChanged\<close>, which run in that order unless the container's signals are blocked.\<close>

definition emit_undoableChange ::
  "('s, 'n, 't, 'b) env \<Rightarrow> ('s, 'b) MainWindow \<Rightarrow> ('s, 'b) MainWindow" where
  "emit_undoableChange E st =
     (if signalsBlocked (current_tab st) then st else onSceneChanged E (onPushUndo E st))"

text \<open>A change \<open>f\<close> of the current container's scene, followed by the signals that the
  container emits for it.\<close>

definition updateScene ::
  "('s, 'n, 't, 'b) env \<Rightarrow> ('s \<Rightarrow> 's) \<Rightarrow> ('s, 'b) MainWindow \<Rightarrow> ('s, 'b) MainWindow" where
  "updateScene E f st =
     (let old = scene (current_tab st);
          new = f old
      in (emit_undoableChange E ^^ emissions E old new)
           (st\<lparr>current_tab := (current_tab st)\<lparr>scene := new\<rparr>\<rparr>))"

text \<open>\<^verbatim>\<open>MainWindow::lockEditing\<close> (lines 403-409).\<close>

definition lockEditing :: "bool \<Rightarrow> ('s, 'b) MainWindow \<Rightarrow> ('s, 'b) MainWindow" where
  "lockEditing locked st =
     st\<lparr>current_tab := (current_tab st)\<lparr>editingLocked := locked\<rparr>,
        other_tabs := map (\<lambda>(name, tab). (name, tab\<lparr>editingLocked := locked\<rparr>)) (other_tabs st)\<rparr>"

subsection \<open>Re-layout and restore\<close>

text \<open>The body of the loop of \<^verbatim>\<open>refreshNodesLayout\<close> (lines 605-612) for one scene.\<close>

definition relayout :: "('s, 'n, 't, 'b) env \<Rightarrow> PortLayout \<Rightarrow> 's \<Rightarrow> 's" where
  "relayout E new_layout sc =
     (if layout E sc \<noteq> new_layout
      then (let abstract_tree = BuildBehaviorTreeFromScene E sc;
                sc = setLayout E new_layout sc
            in NodeReorder E sc abstract_tree)
      else sc)"

text \<open>The same body on the tabs other than the current one.\<close>

definition relayout_tabs ::
  "('s, 'n, 't, 'b) env \<Rightarrow> PortLayout \<Rightarrow> (string \<times> 's GraphicContainer) list
     \<Rightarrow> (string \<times> 's GraphicContainer) list" where
  "relayout_tabs E new_layout tabs =
     map (\<lambda>(name, tab). (name, tab\<lparr>scene := relayout E new_layout (scene tab)\<rparr>)) tabs"

text \<open>The scenes of all tabs of \<^verbatim>\<open>_tab_info\<close>.\<close>

definition scenes :: "('s, 'b) MainWindow \<Rightarrow> 's list" where
  "scenes st = scene (current_tab st) # map (\<lambda>(name, tab). scene tab) (other_tabs st)"

text \<open>\<^verbatim>\<open>MainWindow::refreshNodesLayout\<close> (lines 586-621). The loop visits every tab; the
  blocker is the current container's, so the change of its scene goes through
  \<open>updateScene\<close>. Signals of the other containers are not part of the model: their scenes
  are changed and nothing more. \<^verbatim>\<open>on_toolButtonCenterView_pressed\<close> moves the view only.\<close>

definition refreshNodesLayout ::
  "('s, 'n, 't, 'b) env \<Rightarrow> PortLayout \<Rightarrow> ('s, 'b) MainWindow \<Rightarrow> ('s, 'b) MainWindow" where
  "refreshNodesLayout E new_layout st =
     (let st = (if new_layout \<noteq> current_layout st
                then st\<lparr>toolButtonLayout_icon :=
                          (if new_layout = Horizontal then '':/icons/BT-horizontal.png''
                           else '':/icons/BT-vertical.png'')\<rparr>
                else st);
          refreshed = list_ex (\<lambda>sc. layout E sc \<noteq> new_layout) (scenes st);
          st = QSignalBlocker (\<lambda>st.
                 let st = updateScene E (relayout E new_layout) st
                 in st\<lparr>other_tabs := relayout_tabs E new_layout (other_tabs st)\<rparr>) st;
          st = st\<lparr>current_layout := new_layout\<rparr>
      in if refreshed then onPushUndo E st else st)"

text \<open>\<^verbatim>\<open>MainWindow::loadSceneFromYAML\<close> (lines 487-499).\<close>

definition loadSceneFromYAML ::
  "('s, 'n, 't, 'b) env \<Rightarrow> 'b \<Rightarrow> ('s, 'b) MainWindow \<Rightarrow> ('s, 'b) MainWindow" where
  "loadSceneFromYAML E state st =
     (let st = QSignalBlocker (\<lambda>st.
                 let st = st\<lparr>undo_enabled := False\<rparr>;
                     st = updateScene E (clearScene E) st;
                     st = updateScene E (\<lambda>sc. loadFromMemory E sc state) st;
                     st = refreshNodesLayout E (layout E (scene (current_tab st))) st
                 in st\<lparr>undo_enabled := True\<rparr>) st
      in onSceneChanged E st)"

subsection \<open>Undo and redo\<close>

text \<open>\<^verbatim>\<open>MainWindow::onUndoInvoked\<close> (lines 471-485).\<close>

definition onUndoInvoked ::
  "('s, 'n, 't, 'b) env \<Rightarrow> ('s, 'b) MainWindow \<Rightarrow> ('s, 'b) MainWindow" where
  "onUndoInvoked E st =
     (if current_mode st \<noteq> EDITOR then st
      else if length (undo_stack st) > 0
      then (let st = st\<lparr>redo_stack := redo_stack st @ [current_state st]\<rparr>;
                st = st\<lparr>current_state := last (undo_stack st)\<rparr>;
                st = st\<lparr>undo_stack := butlast (undo_stack st)\<rparr>
            in loadSceneFromYAML E (current_state st) st)
      else st)"

text \<open>\<^verbatim>\<open>MainWindow::onRedoInvoked\<close> (lines 501-515).\<close>

definition onRedoInvoked ::
  "('s, 'n, 't, 'b) env \<Rightarrow> ('s, 'b) MainWindow \<Rightarrow> ('s, 'b) MainWindow" where
  "onRedoInvoked E st =
     (if current_mode st \<noteq> EDITOR then st
      else if length (redo_stack st) > 0
      then (let st = st\<lparr>undo_stack := undo_stack st @ [current_state st]\<rparr>;
                st = st\<lparr>current_state := last (redo_stack st)\<rparr>;
                st = st\<lparr>redo_stack := butlast (redo_stack st)\<rparr>
            in loadSceneFromYAML E (current_state st) st)
      else st)"

text \<open>\<^verbatim>\<open>MainWindow::on_actionEditor_Mode_triggered\<close> (lines 634-638); \<^verbatim>\<open>updateCurrentMode\<close>
  shows and hides widgets only.\<close>

definition on_actionEditor_Mode_triggered :: "('s, 'b) MainWindow \<Rightarrow> ('s, 'b) MainWindow" where
  "on_actionEditor_Mode_triggered st = st\<lparr>current_mode := EDITOR\<rparr>"

text \<open>\<^verbatim>\<open>MainWindow::on_toolButtonLayout_clicked\<close> (lines 623-632).\<close>

definition on_toolButtonLayout_clicked ::
  "('s, 'n, 't, 'b) env \<Rightarrow> ('s, 'b) MainWindow \<Rightarrow> ('s, 'b) MainWindow" where
  "on_toolButtonLayout_clicked E st =
     (if current_layout st = Horizontal then refreshNodesLayout E Vertical st
      else refreshNodesLayout E Horizontal st)"

subsection \<open>Loading\<close>

text \<open>\<^verbatim>\<open>MainWindow::on_loadBehaviorTree\<close> (lines 527-546). \<^verbatim>\<open>scene->update()\<close> schedules a
  repaint and leaves the scene as it is.\<close>

definition on_loadBehaviorTree ::
  "('s, 'n, 't, 'b) env \<Rightarrow> 't \<Rightarrow> ('s, 'b) MainWindow \<Rightarrow> ('s, 'b) MainWindow" where
  "on_loadBehaviorTree E tree st =
     (let st = QSignalBlocker (\<lambda>st.
                 let st = updateScene E (clearScene E) st;
                     st = updateScene E (\<lambda>sc. BuildSceneFromBehaviorTree E sc tree) st;
                     st = onSceneChanged E st;
                     st = updateScene E (nodeReorder E) st
                 in lockEditing (current_mode st \<noteq> EDITOR) st) st;
          st = st\<lparr>undo_stack := []\<rparr>;
          st = st\<lparr>redo_stack := []\<rparr>
      in onPushUndo E st)"

text \<open>\<^verbatim>\<open>XMLNode::FirstChildElement(name)\<close>: the first child that is an element of that
  name, null when there is none.\<close>

fun FirstChildElement :: "XMLNode \<Rightarrow> string \<Rightarrow> XMLNode option" where
  "FirstChildElement (XMLElement n as cs) name =
     find (\<lambda>c. case c of XMLElement m _ _ \<Rightarrow> m = name | XMLComment _ \<Rightarrow> False) cs"
| "FirstChildElement (XMLComment v) name = None"

text \<open>The message box of lines 187-189: the text ends with the message of the exception,
  after two line feeds.\<close>

definition parse_warning :: "string \<Rightarrow> Dialog" where
  "parse_warning err_message =
     Warning ''Exception!''
       (''It was not possible to parse the file. Error:'' @ [CHR 0x0A, CHR 0x0A] @ err_message)"

text \<open>
  \<^verbatim>\<open>MainWindow::loadFromXML\<close> (lines 146-206), from the document that
  \<^verbatim>\<open>document.Parse\<close> (line 151) built out of the text. The result is \<open>Inl\<close> when the
  call does not return. \<^verbatim>\<open>ReadTreeNodesModel\<close> (line 154) works on the registry and on
  \<^verbatim>\<open>_tree_nodes_model\<close> themselves, so what it has written stays when it throws and
  when a later step fails. \<^verbatim>\<open>updateTreeView\<close> redraws the side panel only. The blocker
  of the inner block is released when the block is left, also by an exception.
\<close>

definition loadFromXML ::
  "('s, 'n, 't, 'b) env \<Rightarrow> XMLDocument \<Rightarrow> ('s, 'b) MainWindow \<Rightarrow> abort + ('s, 'b) MainWindow" where
  "loadFromXML E document st =
     (if ErrorID document \<noteq> 0 then Inr (lockEditing (current_mode st \<noteq> EDITOR) st)
      else
        let ((registry, models), thrown) =
              ReadTreeNodesModel E (RootElement document) (model_registry st) (tree_nodes_model st);
            st = st\<lparr>model_registry := registry, tree_nodes_model := models\<rparr>
        in (case thrown of
              Some err \<Rightarrow>
                if is_runtime_error err
                then Inr (st\<lparr>dialogs := dialogs st @ [Critical ''Error'' (what err)]\<rparr>)
                else Inl (Uncaught err)
            | None \<Rightarrow>
                let st = QSignalBlocker (updateScene E (clearScene E)) st;
                    saved_state = current_state st
                in (case RootElement document of
                      None \<Rightarrow> Inl NullDereference
                    | Some root \<Rightarrow>
                        let was_blocked = signalsBlocked (current_tab st);
                            st = blockSignals True st;
                            (sc, thrown) = CreateTreeInSceneFromXML E
                                             (FirstChildElement root ''BehaviorTree'')
                                             (model_registry st)
                                             (scene (current_tab st));
                            st = updateScene E (\<lambda>_. sc) st
                        in (case thrown of
                              None \<Rightarrow>
                                let st = updateScene E (nodeReorder E) st;
                                    st = blockSignals was_blocked st;
                                    st = onSceneChanged E st;
                                    st = onPushUndo E st
                                in Inr (lockEditing (current_mode st \<noteq> EDITOR) st)
                            | Some err \<Rightarrow>
                                let st = blockSignals was_blocked st
                                in if is_runtime_error err \<or> is_logic_error err
                                   then
                                     (let err_message = what err;
                                          st = loadSceneFromYAML E saved_state st;
                                          st = st\<lparr>dialogs := dialogs st @ [parse_warning err_message]\<rparr>
                                      in Inr (lockEditing (current_mode st \<noteq> EDITOR) st))
                                   else Inl (Uncaught err)))))"

subsection \<open>Saving\<close>

text \<open>The text of the three separator comments (lines 276, 282 and 308): 35 hyphens.\<close>

definition separator :: string where
  "separator = ''-----------------------------------''"

text \<open>
  The \<^verbatim>\<open>TreeNodesModel\<close> element (lines 284-306). Line 299 appends \<^verbatim>\<open>root_models\<close>
  itself under each \<^verbatim>\<open>Parameter\<close> element; tinyxml2's \<^verbatim>\<open>InsertEndChild\<close> unlinks a
  node from its parent before it links it again, so the element ends under \<^verbatim>\<open>root\<close>
  alone (line 307) and each \<^verbatim>\<open>Parameter\<close> element ends without children.
\<close>

definition TreeNodesModel_element :: "('s, 'n, 't, 'b) env \<Rightarrow> TreeNodeModels \<Rightarrow> XMLNode" where
  "TreeNodesModel_element E models =
     XMLElement ''TreeNodesModel'' []
       (map (\<lambda>(ID, model).
               XMLElement (toStr E (node_type model)) [(''ID'', ID)]
                 (map (\<lambda>(label, type).
                         XMLElement ''Parameter'' [(''label'', label), (''type'', type)] [])
                    (params model)))
          models)"

text \<open>The document that \<^verbatim>\<open>on_actionSave_triggered\<close> builds (lines 272-308) for the single
  child \<open>current_node\<close> of the root.\<close>

definition saveDocument ::
  "('s, 'n, 't, 'b) env \<Rightarrow> 's \<Rightarrow> TreeNodeModels \<Rightarrow> 'n \<Rightarrow> XMLNode" where
  "saveDocument E sc models current_node =
     XMLElement ''root'' []
       [XMLComment separator,
        RecursivelyCreateXml E sc (XMLElement ''BehaviorTree'' [] []) current_node,
        XMLComment separator,
        TreeNodesModel_element E models,
        XMLComment separator]"

text \<open>The message box of lines 265-267.\<close>

definition malformed_warning :: Dialog where
  "malformed_warning = Warning ''Oops!'' ''Malformed behavior tree. There must be only 1 root node''"

text \<open>What the save dialog and the file system answer: the dialog's result, the files it
  selected, and whether \<^verbatim>\<open>file.open(QIODevice::WriteOnly)\<close> succeeds.\<close>

record SaveDialog =
  result_Accepted :: bool
  selectedFiles :: "string list"
  open_WriteOnly :: bool

text \<open>
  \<^verbatim>\<open>MainWindow::on_actionSave_triggered\<close> (lines 243-343) on a file system that maps a
  file name to the file's text. \<^verbatim>\<open>roots.front()\<close> is read only when there is exactly one
  root, and \<^verbatim>\<open>root_children.front()\<close> only when there is exactly one child. The settings
  (the last save directory) are left out.
\<close>

definition on_actionSave_triggered ::
  "('s, 'n, 't, 'b) env \<Rightarrow> SaveDialog \<Rightarrow> (string \<rightharpoonup> string) \<Rightarrow> ('s, 'b) MainWindow
     \<Rightarrow> (string \<rightharpoonup> string) \<times> ('s, 'b) MainWindow" where
  "on_actionSave_triggered E saveDialog files st =
     (let sc = scene (current_tab st);
          roots = findRoots E sc;
          valid_root = (length roots = 1 \<and> isRootNodeModel E (hd roots));
          root_children = (if valid_root then getChildren E sc (hd roots) else []);
          current_node = (if valid_root \<and> length root_children = 1
                          then Some (hd root_children) else None);
          valid_root = (valid_root \<and> length root_children = 1)
      in case (if valid_root then current_node else None) of
           None \<Rightarrow>
             (files, st\<lparr>dialogs := dialogs st @ [malformed_warning]\<rparr>)
         | Some node \<Rightarrow>
             let doc = saveDocument E sc (tree_nodes_model st) node;
                 fileName = (if result_Accepted saveDialog \<and> length (selectedFiles saveDialog) = 1
                             then selectedFiles saveDialog ! 0 else [])
             in if fileName = [] then (files, st)
                else if open_WriteOnly saveDialog
                then (files(fileName \<mapsto> Print E doc @ [CHR 0x0A]), st)
                else (files, st))"

section \<open>Notions used in the statements\<close>

text \<open>The condition under which \<^verbatim>\<open>onPushUndo\<close> pushes (lines 458-459).\<close>

definition pushes :: "('s, 'n, 't, 'b) env \<Rightarrow> ('s, 'b) MainWindow \<Rightarrow> bool" where
  "pushes E st \<longleftrightarrow>
     undo_stack st = [] \<or>
     (saveToMemory E (scene (current_tab st)) \<noteq> current_state st \<and>
      last (undo_stack st) \<noteq> current_state st)"

text \<open>The scene that \<^verbatim>\<open>loadSceneFromYAML\<close> rebuilds from a snapshot (lines 493-494).\<close>

definition restored :: "('s, 'n, 't, 'b) env \<Rightarrow> 'b \<Rightarrow> ('s, 'b) MainWindow \<Rightarrow> 's" where
  "restored E state st = loadFromMemory E (clearScene E (scene (current_tab st))) state"

text \<open>The snapshot store: undo stack, current state, redo stack; and what undo and redo do
  to it when the editor is not locked.\<close>

definition store :: "('s, 'b) MainWindow \<Rightarrow> 'b list \<times> 'b \<times> 'b list" where
  "store st = (undo_stack st, current_state st, redo_stack st)"

fun undoS :: "'b list \<times> 'b \<times> 'b list \<Rightarrow> 'b list \<times> 'b \<times> 'b list" where
  "undoS (U, c, R) = (if U = [] then (U, c, R) else (butlast U, last U, R @ [c]))"

fun redoS :: "'b list \<times> 'b \<times> 'b list \<Rightarrow> 'b list \<times> 'b \<times> 'b list" where
  "redoS (U, c, R) = (if R = [] then (U, c, R) else (U @ [c], last R, butlast R))"

text \<open>An edit that leaves the scene of the current tab as \<open>sc\<close>, followed by the two slots
  of \<^verbatim>\<open>undoableChange\<close>; a sequence of edits; and the condition that every edit of the
  sequence changes the snapshot of the scene (\<open>c\<close> is the snapshot before the first).\<close>

definition edit :: "('s, 'n, 't, 'b) env \<Rightarrow> 's \<Rightarrow> ('s, 'b) MainWindow \<Rightarrow> ('s, 'b) MainWindow" where
  "edit E sc st =
     onSceneChanged E (onPushUndo E (st\<lparr>current_tab := (current_tab st)\<lparr>scene := sc\<rparr>\<rparr>))"

fun edits :: "('s, 'n, 't, 'b) env \<Rightarrow> 's list \<Rightarrow> ('s, 'b) MainWindow \<Rightarrow> ('s, 'b) MainWindow" where
  "edits E [] st = st"
| "edits E (sc # scs) st = edits E scs (edit E sc st)"

fun changing :: "('s, 'n, 't, 'b) env \<Rightarrow> 'b \<Rightarrow> 's list \<Rightarrow> bool" where
  "changing E c [] = True"
| "changing E c (sc # scs) = (saveToMemory E sc \<noteq> c \<and> changing E (saveToMemory E sc) scs)"

text \<open>\<^verbatim>\<open>_current_state\<close> is the snapshot of the live scene.\<close>

definition in_sync :: "('s, 'n, 't, 'b) env \<Rightarrow> ('s, 'b) MainWindow \<Rightarrow> bool" where
  "in_sync E st \<longleftrightarrow> current_state st = saveToMemory E (scene (current_tab st))"

text \<open>The undo stack is not empty and its top is not \<^verbatim>\<open>_current_state\<close>.\<close>

definition top_differs :: "('s, 'b) MainWindow \<Rightarrow> bool" where
  "top_differs st \<longleftrightarrow> undo_stack st \<noteq> [] \<and> last (undo_stack st) \<noteq> current_state st"

text \<open>The check that \<^verbatim>\<open>on_actionSave_triggered\<close> makes before it builds the document
  (lines 247-261): one root, of the model \<^verbatim>\<open>RootNodeModel\<close>, with one child.\<close>

definition valid_root_check :: "('s, 'n, 't, 'b) env \<Rightarrow> 's \<Rightarrow> bool" where
  "valid_root_check E sc =
     (case findRoots E sc of
        [r] \<Rightarrow> isRootNodeModel E r \<and> length (getChildren E sc r) = 1
      | _ \<Rightarrow> False)"

text \<open>The save action is enabled exactly when the live scene has one root.\<close>

definition save_check :: "('s, 'n, 't, 'b) env \<Rightarrow> ('s, 'b) MainWindow \<Rightarrow> bool" where
  "save_check E st \<longleftrightarrow>
     actionSave_enabled st = (length (findRoots E (scene (current_tab st))) = 1)"

text \<open>The window after every scene has been laid out for \<open>new_layout\<close>, before any
  snapshot is taken (lines 589-616).\<close>

definition laid_out ::
  "('s, 'n, 't, 'b) env \<Rightarrow> PortLayout \<Rightarrow> ('s, 'b) MainWindow \<Rightarrow> ('s, 'b) MainWindow" where
  "laid_out E new_layout st =
     st\<lparr>toolButtonLayout_icon :=
          (if new_layout \<noteq> current_layout st
           then (if new_layout = Horizontal then '':/icons/BT-horizontal.png''
                 else '':/icons/BT-vertical.png'')
           else toolButtonLayout_icon st),
        current_tab := (current_tab st)\<lparr>scene := relayout E new_layout (scene (current_tab st))\<rparr>,
        other_tabs := relayout_tabs E new_layout (other_tabs st),
        current_layout := new_layout\<rparr>"

text \<open>
  Comments of well-formed XML (XML 1.0, production 15:
  \<^verbatim>\<open>Comment ::= '<!--' ((Char - '-') | ('-' (Char - '-')))* '-->'\<close>): the text of a comment
  holds no two hyphens in a row and does not end with a hyphen. A document tree can be
  written as well-formed XML only if all its comments are of this kind.
\<close>

fun has_double_hyphen :: "string \<Rightarrow> bool" where
  "has_double_hyphen (a # b # cs) =
     ((a = CHR ''-'' \<and> b = CHR ''-'') \<or> has_double_hyphen (b # cs))"
| "has_double_hyphen cs = False"

definition comment_wellformed :: "string \<Rightarrow> bool" where
  "comment_wellformed v \<longleftrightarrow> \<not> has_double_hyphen v \<and> (v = [] \<or> last v \<noteq> CHR ''-'')"

fun comments_wellformed :: "XMLNode \<Rightarrow> bool" where
  "comments_wellformed (XMLComment v) = comment_wellformed v"
| "comments_wellformed (XMLElement n as cs) = list_all comments_wellformed cs"

text \<open>\<^verbatim>\<open>on_loadBehaviorTree\<close> up to its last call, of \<^verbatim>\<open>onPushUndo\<close> (lines 529-544).\<close>

definition adopted ::
  "('s, 'n, 't, 'b) env \<Rightarrow> 't \<Rightarrow> ('s, 'b) MainWindow \<Rightarrow> ('s, 'b) MainWindow" where
  "adopted E tree st =
     (let st = QSignalBlocker (\<lambda>st.
                 let st = updateScene E (clearScene E) st;
                     st = updateScene E (\<lambda>sc. BuildSceneFromBehaviorTree E sc tree) st;
                     st = onSceneChanged E st;
                     st = updateScene E (nodeReorder E) st
                 in lockEditing (current_mode st \<noteq> EDITOR) st) st;
          st = st\<lparr>undo_stack := []\<rparr>
      in st\<lparr>redo_stack := []\<rparr>)"

section \<open>An instance of the collaborators\<close>

text \<open>
  The statements below are tried on one implementation of the collaborators, small enough
  to be evaluated. Its scene is the Document of the specification.
\<close>

text \<open>Modelled from the spec: the flow scene (\<^verbatim>\<open>QtNodes::FlowScene\<close>) is not in
  \<^verbatim>\<open>mainwindow.cpp\<close>. A \<open>DocumentNode\<close> has a type name, a category, parameter values and
  an ordered list of children that it owns; a \<open>Document\<close> is a forest of such nodes, whose
  top nodes are the nodes without parent, with the orientation of its layout.\<close>

datatype DocumentNode =
  DocumentNode (type_name: string) (category: NodeType)
    (parameter_values: "(string \<times> string) list") (children: "DocumentNode list")

record Document =
  forest :: "DocumentNode list"
  orientation :: PortLayout

fun is_element :: "XMLNode \<Rightarrow> bool" where
  "is_element (XMLElement n as cs) = True"
| "is_element (XMLComment v) = False"

text \<open>Modelled from the spec: \<^verbatim>\<open>toStr\<close> of a node category is not in \<^verbatim>\<open>mainwindow.cpp\<close>.
  The element name of an entry of the model section is its category tag.\<close>

fun tag_of_category :: "NodeType \<Rightarrow> string" where
  "tag_of_category ROOT = ''Root''"
| "tag_of_category CONTROL = ''Control''"
| "tag_of_category DECORATOR = ''Decorator''"
| "tag_of_category ACTION = ''Action''"
| "tag_of_category SUBTREE = ''SubTree''"

fun category_of_tag :: "string \<Rightarrow> NodeType option" where
  "category_of_tag tag =
     (if tag = ''Root'' then Some ROOT
      else if tag = ''Control'' then Some CONTROL
      else if tag = ''Decorator'' then Some DECORATOR
      else if tag = ''Action'' then Some ACTION
      else if tag = ''SubTree'' then Some SUBTREE
      else None)"

text \<open>Modelled from the spec: \<^verbatim>\<open>ReadTreeNodesModel\<close> (\<^verbatim>\<open>XML_utilities.hpp\<close>) is not in
  \<^verbatim>\<open>mainwindow.cpp\<close>. Each entry of the \<^verbatim>\<open>TreeNodesModel\<close> section is an element named
  by a category tag, with an \<^verbatim>\<open>ID\<close> attribute and \<^verbatim>\<open>Parameter\<close> children that carry
  \<^verbatim>\<open>label\<close> and \<^verbatim>\<open>type\<close>. The models read replace the former ones, and every \<^verbatim>\<open>ID\<close>
  read is registered with its category; a missing root element or a malformed entry is an
  error and leaves the registry and the former models.\<close>

fun read_parameter :: "XMLNode \<Rightarrow> (string \<times> string) option" where
  "read_parameter (XMLElement n as cs) =
     (if n = ''Parameter''
      then (case (map_of as ''label'', map_of as ''type'') of
              (Some l, Some t) \<Rightarrow> Some (l, t)
            | _ \<Rightarrow> None)
      else None)"
| "read_parameter (XMLComment v) = None"

fun read_model :: "XMLNode \<Rightarrow> (string \<times> TreeNodeModel) option" where
  "read_model (XMLElement n as cs) =
     (case (category_of_tag n, map_of as ''ID'', those (map read_parameter (filter is_element cs))) of
        (Some c, Some ID, Some ps) \<Rightarrow> Some (ID, \<lparr>node_type = c, params = ps\<rparr>)
      | _ \<Rightarrow> None)"
| "read_model (XMLComment v) = None"

definition read_TreeNodesModel ::
  "XMLNode option \<Rightarrow> DataModelRegistry \<Rightarrow> TreeNodeModels
     \<Rightarrow> (DataModelRegistry \<times> TreeNodeModels) \<times> exception option" where
  "read_TreeNodesModel root registry models =
     (case root of
        None \<Rightarrow> ((registry, models), Some (runtime_error ''missing root element''))
      | Some r \<Rightarrow>
          (case FirstChildElement r ''TreeNodesModel'' of
             None \<Rightarrow> ((registry, []), None)
           | Some section \<Rightarrow>
               (case those (map read_model (filter is_element (Children section))) of
                  None \<Rightarrow>
                    ((registry, models), Some (runtime_error ''malformed TreeNodesModel entry''))
                | Some ms \<Rightarrow>
                    ((registry @ map (\<lambda>(ID, model). (ID, node_type model)) ms, ms), None))))"

text \<open>Modelled from the spec: \<^verbatim>\<open>CreateTreeInSceneFromXML\<close> (\<^verbatim>\<open>XML_utilities.hpp\<close>) is not
  in \<^verbatim>\<open>mainwindow.cpp\<close>. Each element under \<^verbatim>\<open>BehaviorTree\<close> becomes a node whose type
  name is the element's \<^verbatim>\<open>ID\<close>, or its tag when it has no \<^verbatim>\<open>ID\<close>; the type name must be
  registered, which gives the node's category, and a reference to a name that is not
  registered is an error. The other attributes are the parameter values, the nested
  elements the children in document order, and the tree hangs under a root node.\<close>

fun build_node :: "DataModelRegistry \<Rightarrow> XMLNode \<Rightarrow> DocumentNode option" where
  "build_node registry (XMLElement tag as cs) =
     (let name = (case map_of as ''ID'' of Some ID \<Rightarrow> ID | None \<Rightarrow> tag)
      in case (map_of registry name, those (map (build_node registry) (filter is_element cs))) of
           (Some c, Some ns) \<Rightarrow> Some (DocumentNode name c (filter (\<lambda>(k, v). k \<noteq> ''ID'') as) ns)
         | _ \<Rightarrow> None)"
| "build_node registry (XMLComment v) = None"

definition create_tree ::
  "XMLNode option \<Rightarrow> DataModelRegistry \<Rightarrow> Document \<Rightarrow> Document \<times> exception option" where
  "create_tree bt registry sc =
     (case bt of
        None \<Rightarrow> (sc, Some (runtime_error ''no BehaviorTree element''))
      | Some b \<Rightarrow>
          (case those (map (build_node registry) (filter is_element (Children b))) of
             None \<Rightarrow> (sc, Some (runtime_error ''reference to an unregistered ID''))
           | Some ns \<Rightarrow> (sc\<lparr>forest := [DocumentNode ''Root'' ROOT [] ns]\<rparr>, None)))"

text \<open>Modelled from the spec: the names of the node models are not in \<^verbatim>\<open>mainwindow.cpp\<close>.
  The registry as the constructor fills it (lines 63-67): the root model, and the three
  control models, sequence, sequence-star and fallback.\<close>

definition constructor_registry :: DataModelRegistry where
  "constructor_registry =
     [(''Root'', ROOT), (''Sequence'', CONTROL), (''SequenceStar'', CONTROL), (''Fallback'', CONTROL)]"

text \<open>Modelled from the spec: \<^verbatim>\<open>RecursivelyCreateXml\<close> (\<^verbatim>\<open>XML_utilities.hpp\<close>) is not in
  \<^verbatim>\<open>mainwindow.cpp\<close>. A node is written as an element whose tag is its type name and
  whose attributes are its parameters, with its children in order.\<close>

fun node_to_xml :: "DocumentNode \<Rightarrow> XMLNode" where
  "node_to_xml (DocumentNode tag c ps ns) = XMLElement tag ps (map node_to_xml ns)"

text \<open>Modelled from the spec: the printer of tinyxml2 is not in \<^verbatim>\<open>mainwindow.cpp\<close>. The
  text of a document, without indentation.\<close>

fun print_xml :: "XMLNode \<Rightarrow> string" where
  "print_xml (XMLComment v) = ''<!--'' @ v @ ''-->''"
| "print_xml (XMLElement n as cs) =
     ''<'' @ n @ concat (map (\<lambda>(k, v). '' '' @ k @ ''='' @ [CHR 0x22] @ v @ [CHR 0x22]) as) @
     (if cs = [] then ''/>'' else ''>'' @ concat (map print_xml cs) @ ''</'' @ n @ ''>'')"

text \<open>Modelled from the spec: the members of the scene and the functions of \<^verbatim>\<open>utils.h\<close>
  are not in \<^verbatim>\<open>mainwindow.cpp\<close>. The roots are the nodes without parent; the snapshot
  of a Document is a faithful serialization, here the Document itself; clearing removes
  every node; a re-layout keeps the nodes and their order.\<close>

definition E0 :: "(Document, DocumentNode, DocumentNode list, Document) env" where
  "E0 = \<lparr>findRoots = forest,
         getChildren = (\<lambda>sc n. children n),
         isRootNodeModel = (\<lambda>n. category n = ROOT),
         clearScene = (\<lambda>sc. sc\<lparr>forest := []\<rparr>),
         saveToMemory = (\<lambda>sc. sc),
         loadFromMemory = (\<lambda>sc state. state),
         layout = orientation,
         setLayout = (\<lambda>l sc. sc\<lparr>orientation := l\<rparr>),
         BuildBehaviorTreeFromScene = forest,
         BuildSceneFromBehaviorTree = (\<lambda>sc tree. sc\<lparr>forest := tree\<rparr>),
         NodeReorder = (\<lambda>sc tree. sc),
         nodeReorder = (\<lambda>sc. sc),
         RecursivelyCreateXml = (\<lambda>sc parent n.
            XMLElement (Name parent) (Attributes parent) (Children parent @ [node_to_xml n])),
         ReadTreeNodesModel = read_TreeNodesModel,
         CreateTreeInSceneFromXML = create_tree,
         toStr = tag_of_category,
         Print = print_xml,
         emissions = (\<lambda>old new. if old = new then 0 else 1)\<rparr>"

text \<open>A window in editor mode with one tab that shows the scene \<open>sc\<close>, an empty history,
  \<open>c\<close> as current state and the registry of the constructor.\<close>

definition window0 :: "Document \<Rightarrow> Document \<Rightarrow> (Document, Document) MainWindow" where
  "window0 sc c =
     \<lparr>current_mode = EDITOR, current_layout = Horizontal, undo_enabled = True,
      undo_stack = [], redo_stack = [], current_state = c,
      model_registry = constructor_registry, tree_nodes_model = [],
      current_tab = \<lparr>scene = sc, signalsBlocked = False, editingLocked = False\<rparr>,
      other_tabs = [],
      toolButtonLayout_enabled = False, toolButtonReorder_enabled = False,
      actionSave_enabled = False, labelSemaphore_toolTip = [], toolButtonLayout_icon = [],
      dialogs = []\<rparr>"

text \<open>Documents: empty; a root alone; Root over Sequence; Root over Fallback; two roots.\<close>

definition doc_empty :: Document where
  "doc_empty = \<lparr>forest = [], orientation = Horizontal\<rparr>"

definition doc_root :: Document where
  "doc_root = \<lparr>forest = [DocumentNode ''Root'' ROOT [] []], orientation = Horizontal\<rparr>"

definition doc_seq :: Document where
  "doc_seq = \<lparr>forest = [DocumentNode ''Root'' ROOT [] [DocumentNode ''Sequence'' CONTROL [] []]],
              orientation = Horizontal\<rparr>"

definition doc_fallback :: Document where
  "doc_fallback = \<lparr>forest = [DocumentNode ''Root'' ROOT [] [DocumentNode ''Fallback'' CONTROL [] []]],
                   orientation = Horizontal\<rparr>"

definition doc_two_roots :: Document where
  "doc_two_roots = \<lparr>forest = [DocumentNode ''Root'' ROOT [] [], DocumentNode ''Sequence'' CONTROL [] []],
                    orientation = Horizontal\<rparr>"

text \<open>A window in replay mode that shows Root over Sequence.\<close>

definition window_replay :: "(Document, Document) MainWindow" where
  "window_replay = (window0 doc_seq doc_seq)\<lparr>current_mode := REPLAY\<rparr>"

text \<open>A window in monitor mode with a history.\<close>

definition window_monitor :: "(Document, Document) MainWindow" where
  "window_monitor =
     (window0 doc_seq doc_seq)\<lparr>current_mode := MONITOR, undo_stack := [doc_empty, doc_root],
                               redo_stack := [doc_fallback]\<rparr>"

text \<open>A window whose undo stack has the current state on top, while the scene has changed.\<close>

definition window_top_is_current :: "(Document, Document) MainWindow" where
  "window_top_is_current = (window0 doc_fallback doc_seq)\<lparr>undo_stack := [doc_seq]\<rparr>"

definition dialog_accept :: SaveDialog where
  "dialog_accept = \<lparr>result_Accepted = True, selectedFiles = [''tree.xml''], open_WriteOnly = True\<rparr>"

text \<open>A window that shows the empty document, with a root alone on the undo stack.\<close>

definition window_undo_root :: "(Document, Document) MainWindow" where
  "window_undo_root = (window0 doc_empty doc_empty)\<lparr>undo_stack := [doc_root]\<rparr>"

text \<open>The window after the same tree has been loaded twice into an empty editor.\<close>

definition window_loaded_twice :: "(Document, Document) MainWindow" where
  "window_loaded_twice =
     on_loadBehaviorTree E0 (forest doc_seq)
       (on_loadBehaviorTree E0 (forest doc_seq) (window0 doc_empty doc_empty))"

text \<open>A window whose signals are blocked and whose undo is disabled, as during a restore.\<close>

definition window_restoring :: "(Document, Document) MainWindow" where
  "window_restoring =
     (window0 doc_empty doc_seq)
       \<lparr>undo_enabled := False, undo_stack := [doc_root],
        current_tab := \<lparr>scene = doc_empty, signalsBlocked = True, editingLocked = False\<rparr>\<rparr>"

text \<open>A document whose model section declares the action \<^verbatim>\<open>Foo\<close> and whose tree refers
  to \<^verbatim>\<open>Bar\<close>, which is registered nowhere.\<close>

definition document_unregistered :: XMLDocument where
  "document_unregistered =
     \<lparr>ErrorID = 0,
      RootElement = Some (XMLElement ''root'' []
        [XMLElement ''BehaviorTree'' [] [XMLElement ''Sequence'' [] [XMLElement ''Bar'' [] []]],
         XMLElement ''TreeNodesModel'' [] [XMLElement ''Action'' [(''ID'', ''Foo'')] []]])\<rparr>"

text \<open>A document whose model section holds an entry without \<^verbatim>\<open>ID\<close>.\<close>

definition document_malformed_entry :: XMLDocument where
  "document_malformed_entry =
     \<lparr>ErrorID = 0,
      RootElement = Some (XMLElement ''root'' []
        [XMLElement ''BehaviorTree'' [] [XMLElement ''Sequence'' [] []],
         XMLElement ''TreeNodesModel'' [] [XMLElement ''Action'' [] []]])\<rparr>"

text \<open>What the parser leaves of a text that is not XML: an error code and no element. And
  what it leaves of a text that holds a comment and no element: no error and no root.\<close>

definition document_unparsable :: XMLDocument where
  "document_unparsable = \<lparr>ErrorID = 1, RootElement = None\<rparr>"

definition document_no_root :: XMLDocument where
  "document_no_root = \<lparr>ErrorID = 0, RootElement = None\<rparr>"

text \<open>The example of the specification: Sequence over ActionA and ActionB, both declared
  in the model section.\<close>

definition document_example :: XMLDocument where
  "document_example =
     \<lparr>ErrorID = 0,
      RootElement = Some (XMLElement ''root'' []
        [XMLElement ''BehaviorTree'' []
           [XMLElement ''Sequence'' [] [XMLElement ''ActionA'' [] [], XMLElement ''ActionB'' [] []]],
         XMLElement ''TreeNodesModel'' []
           [XMLElement ''Action'' [(''ID'', ''ActionA'')] [],
            XMLElement ''Action'' [(''ID'', ''ActionB'')] []]])\<rparr>"

section \<open>Properties\<close>

subsection \<open>Blocked signals, disabled undo\<close>

lemma emit_blocked:
  "signalsBlocked (current_tab st) \<Longrightarrow> (emit_undoableChange E ^^ n) st = st"
  by (induction n) (simp_all add: emit_undoableChange_def)

lemma updateScene_blocked:
  "signalsBlocked (current_tab st) \<Longrightarrow>
   updateScene E f st = st\<lparr>current_tab := (current_tab st)\<lparr>scene := f (scene (current_tab st))\<rparr>\<rparr>"
  by (simp add: updateScene_def Let_def emit_blocked)

lemma onPushUndo_disabled: "\<not> undo_enabled st \<Longrightarrow> onPushUndo E st = st"
  by (simp add: onPushUndo_def)

lemma onPushUndo_enabled:
  "undo_enabled st \<Longrightarrow>
   onPushUndo E st =
     (if pushes E st
      then st\<lparr>undo_stack := undo_stack st @ [current_state st], redo_stack := [],
              current_state := saveToMemory E (scene (current_tab st))\<rparr>
      else st\<lparr>current_state := saveToMemory E (scene (current_tab st))\<rparr>)"
  by (cases st; cases "current_tab st")
     (simp add: onPushUndo_def QSignalBlocker_def blockSignals_def Let_def pushes_def)

lemma refreshNodesLayout_disabled:
  "\<not> undo_enabled st \<Longrightarrow> signalsBlocked (current_tab st) \<Longrightarrow>
   refreshNodesLayout E new_layout st =
     st\<lparr>toolButtonLayout_icon :=
          (if new_layout \<noteq> current_layout st
           then (if new_layout = Horizontal then '':/icons/BT-horizontal.png''
                 else '':/icons/BT-vertical.png'')
           else toolButtonLayout_icon st),
        current_tab := (current_tab st)\<lparr>scene := relayout E new_layout (scene (current_tab st))\<rparr>,
        other_tabs := relayout_tabs E new_layout (other_tabs st),
        current_layout := new_layout\<rparr>"
  by (cases st; cases "current_tab st")
     (simp add: refreshNodesLayout_def QSignalBlocker_def blockSignals_def Let_def
        updateScene_blocked onPushUndo_disabled)

subsection \<open>The restore\<close>

lemma relayout_same: "relayout E (layout E sc) sc = sc"
  by (simp add: relayout_def)

lemma loadSceneFromYAML_eq:
  "loadSceneFromYAML E state st =
     onSceneChanged E
       (st\<lparr>toolButtonLayout_icon :=
            (if layout E (restored E state st) \<noteq> current_layout st
             then (if layout E (restored E state st) = Horizontal then '':/icons/BT-horizontal.png''
                   else '':/icons/BT-vertical.png'')
             else toolButtonLayout_icon st),
          current_tab := (current_tab st)\<lparr>scene := restored E state st\<rparr>,
          other_tabs := relayout_tabs E (layout E (restored E state st)) (other_tabs st),
          current_layout := layout E (restored E state st),
          undo_enabled := True\<rparr>)"
  by (cases st; cases "current_tab st")
     (simp add: loadSceneFromYAML_def QSignalBlocker_def blockSignals_def Let_def
        updateScene_blocked refreshNodesLayout_disabled relayout_same restored_def)

lemma loadSceneFromYAML_fields:
  "undo_stack (loadSceneFromYAML E state st) = undo_stack st"
  "redo_stack (loadSceneFromYAML E state st) = redo_stack st"
  "current_state (loadSceneFromYAML E state st) = current_state st"
  "current_mode (loadSceneFromYAML E state st) = current_mode st"
  "tree_nodes_model (loadSceneFromYAML E state st) = tree_nodes_model st"
  "dialogs (loadSceneFromYAML E state st) = dialogs st"
  "undo_enabled (loadSceneFromYAML E state st)"
  "scene (current_tab (loadSceneFromYAML E state st)) = restored E state st"
  "model_registry (loadSceneFromYAML E state st) = model_registry st"
  by (simp_all add: loadSceneFromYAML_eq onSceneChanged_def Let_def)

subsection \<open>Undo and redo on the store\<close>

lemma onUndoInvoked_store:
  "current_mode st = EDITOR \<Longrightarrow> store (onUndoInvoked E st) = undoS (store st)"
  by (simp add: onUndoInvoked_def store_def Let_def loadSceneFromYAML_fields)

lemma onRedoInvoked_store:
  "current_mode st = EDITOR \<Longrightarrow> store (onRedoInvoked E st) = redoS (store st)"
  by (simp add: onRedoInvoked_def store_def Let_def loadSceneFromYAML_fields)

lemma onUndoInvoked_mode: "current_mode (onUndoInvoked E st) = current_mode st"
  by (simp add: onUndoInvoked_def Let_def loadSceneFromYAML_fields)

lemma onRedoInvoked_mode: "current_mode (onRedoInvoked E st) = current_mode st"
  by (simp add: onRedoInvoked_def Let_def loadSceneFromYAML_fields)

lemma undo_funpow_mode: "current_mode ((onUndoInvoked E ^^ n) st) = current_mode st"
  by (induction n) (simp_all add: onUndoInvoked_mode)

lemma redo_funpow_mode: "current_mode ((onRedoInvoked E ^^ n) st) = current_mode st"
  by (induction n) (simp_all add: onRedoInvoked_mode)

lemma undo_funpow_store:
  "current_mode st = EDITOR \<Longrightarrow> store ((onUndoInvoked E ^^ n) st) = (undoS ^^ n) (store st)"
  by (induction n) (simp_all add: onUndoInvoked_store undo_funpow_mode)

lemma redo_funpow_store:
  "current_mode st = EDITOR \<Longrightarrow> store ((onRedoInvoked E ^^ n) st) = (redoS ^^ n) (store st)"
  by (induction n) (simp_all add: onRedoInvoked_store redo_funpow_mode)

lemma redoS_undoS: "U \<noteq> [] \<Longrightarrow> redoS (undoS (U, c, R)) = (U, c, R)"
  by simp

lemma redoS_undoS_funpow:
  "n \<le> length U \<Longrightarrow> (redoS ^^ n) ((undoS ^^ n) (U, c, R)) = (U, c, R)"
proof (induction n arbitrary: U c R)
  case 0
  show ?case by simp
next
  case (Suc n)
  then have ne: "U \<noteq> []" and len: "n \<le> length (butlast U)"
    by auto
  have "(redoS ^^ Suc n) ((undoS ^^ Suc n) (U, c, R))
        = redoS ((redoS ^^ n) ((undoS ^^ n) (undoS (U, c, R))))"
    by (simp add: funpow_swap1)
  also have "\<dots> = redoS (undoS (U, c, R))"
    using ne Suc.IH [OF len] by simp
  also have "\<dots> = (U, c, R)"
    using ne by (rule redoS_undoS)
  finally show ?case .
qed

subsection \<open>Edits\<close>

lemma edit_fields:
  assumes "undo_enabled st"
  shows "undo_enabled (edit E sc st)"
    and "current_mode (edit E sc st) = current_mode st"
    and "current_state (edit E sc st) = saveToMemory E sc"
    and "scene (current_tab (edit E sc st)) = sc"
    and "in_sync E (edit E sc st)"
  using assms
  by (simp_all add: edit_def onPushUndo_enabled onSceneChanged_def Let_def in_sync_def)

lemma edit_first:
  assumes "undo_enabled st" and "saveToMemory E sc \<noteq> current_state st"
  shows "top_differs (edit E sc st)"
    and "1 \<le> length (undo_stack (edit E sc st))"
    and "undo_stack st = [] \<Longrightarrow> length (undo_stack (edit E sc st)) = 1"
  using assms
  by (auto simp add: edit_def onPushUndo_enabled onSceneChanged_def Let_def top_differs_def
        pushes_def Suc_le_eq)

lemma edit_pushes:
  assumes "undo_enabled st" and "saveToMemory E sc \<noteq> current_state st" and "top_differs st"
  shows "undo_stack (edit E sc st) = undo_stack st @ [current_state st]"
  using assms
  by (simp add: edit_def onPushUndo_enabled onSceneChanged_def Let_def top_differs_def
        pushes_def)

lemma edits_length:
  assumes "undo_enabled st" and "top_differs st" and "changing E (current_state st) scs"
  shows "length (undo_stack (edits E scs st)) = length (undo_stack st) + length scs"
  using assms
proof (induction scs arbitrary: st)
  case Nil
  show ?case by simp
next
  case (Cons sc scs)
  from Cons.prems have ch: "saveToMemory E sc \<noteq> current_state st"
    and rest: "changing E (saveToMemory E sc) scs"
    by simp_all
  have "length (undo_stack (edits E scs (edit E sc st)))
        = length (undo_stack (edit E sc st)) + length scs"
  proof (rule Cons.IH)
    show "undo_enabled (edit E sc st)"
      using Cons.prems(1) by (rule edit_fields)
    show "top_differs (edit E sc st)"
      using Cons.prems(1) ch by (rule edit_first)
    show "changing E (current_state (edit E sc st)) scs"
      using rest Cons.prems(1) by (simp add: edit_fields)
  qed
  then show ?case
    using edit_pushes [OF Cons.prems(1) ch Cons.prems(2)] by simp
qed

lemma edits_mode: "undo_enabled st \<Longrightarrow> current_mode (edits E scs st) = current_mode st"
  by (induction scs arbitrary: st) (simp_all add: edit_fields)

lemma edits_in_sync:
  "undo_enabled st \<Longrightarrow> scs \<noteq> [] \<Longrightarrow> in_sync E (edits E scs st)"
proof (induction scs arbitrary: st)
  case Nil
  then show ?case by simp
next
  case (Cons sc scs)
  show ?case
  proof (cases "scs = []")
    case True
    then show ?thesis using Cons.prems(1) by (simp add: edit_fields)
  next
    case False
    then show ?thesis
      using Cons.IH [of "edit E sc st"] Cons.prems(1) by (simp add: edit_fields)
  qed
qed

lemma edits_undo_stack_length:
  assumes "undo_enabled st" and "changing E (current_state st) scs"
  shows "length scs \<le> length (undo_stack (edits E scs st))"
    and "undo_stack st = [] \<Longrightarrow> length (undo_stack (edits E scs st)) = length scs"
proof -
  show "length scs \<le> length (undo_stack (edits E scs st))"
  proof (cases scs)
    case Nil
    then show ?thesis by simp
  next
    case (Cons sc rest)
    with assms(2) have ch: "saveToMemory E sc \<noteq> current_state st"
      and rest: "changing E (saveToMemory E sc) rest"
      by simp_all
    have "length (undo_stack (edits E rest (edit E sc st)))
          = length (undo_stack (edit E sc st)) + length rest"
      using rest assms(1) ch
      by (intro edits_length) (simp_all add: edit_fields edit_first)
    then show ?thesis
      using edit_first(2) [OF assms(1) ch] Cons by simp
  qed
  show "length (undo_stack (edits E scs st)) = length scs" if "undo_stack st = []"
  proof (cases scs)
    case Nil
    then show ?thesis using that by simp
  next
    case (Cons sc rest)
    with assms(2) have ch: "saveToMemory E sc \<noteq> current_state st"
      and rest: "changing E (saveToMemory E sc) rest"
      by simp_all
    have "length (undo_stack (edits E rest (edit E sc st)))
          = length (undo_stack (edit E sc st)) + length rest"
      using rest assms(1) ch
      by (intro edits_length) (simp_all add: edit_fields edit_first)
    then show ?thesis
      using edit_first(3) [OF assms(1) ch that] Cons by simp
  qed
qed

lemma undo_funpow_locked:
  "current_mode st \<noteq> EDITOR \<Longrightarrow> (onUndoInvoked E ^^ n) st = st"
  by (induction n) (simp_all add: onUndoInvoked_def)

lemma redo_funpow_locked:
  "current_mode st \<noteq> EDITOR \<Longrightarrow> (onRedoInvoked E ^^ n) st = st"
  by (induction n) (simp_all add: onRedoInvoked_def)

lemma onRedoInvoked_scene:
  "current_mode st = EDITOR \<Longrightarrow> redo_stack st \<noteq> [] \<Longrightarrow>
   scene (current_tab (onRedoInvoked E st)) =
     loadFromMemory E (clearScene E (scene (current_tab st))) (last (redo_stack st))"
  by (simp add: onRedoInvoked_def Let_def loadSceneFromYAML_fields restored_def)

subsection \<open>Undo/redo duality\<close>

text \<open>
  Claim C3. For every sequence of \<open>n\<close> edits, each followed by the snapshot push, where
  every edit changes the snapshot of the scene: \<open>n\<close> times undo and then \<open>n\<close> times redo
  give back the current state, the undo stack and the redo stack as they were after the
  last edit, and the live scene has the snapshot it had after the last edit (provided a
  scene restored from a snapshot has that snapshot again). After the edits the undo stack
  holds at least \<open>n\<close> entries, and exactly \<open>n\<close> when it was empty before them.
\<close>

theorem undo_redo_duality:
  assumes en: "undo_enabled st"
    and ch: "changing E (current_state st) scs"
    and faithful: "\<forall>sc sc'. saveToMemory E (loadFromMemory E (clearScene E sc) (saveToMemory E sc'))
                     = saveToMemory E sc'"
  shows "let n = length scs;
             st' = edits E scs st;
             st'' = (onRedoInvoked E ^^ n) ((onUndoInvoked E ^^ n) st')
         in undo_stack st'' = undo_stack st' \<and>
            current_state st'' = current_state st' \<and>
            redo_stack st'' = redo_stack st' \<and>
            saveToMemory E (scene (current_tab st'')) = saveToMemory E (scene (current_tab st')) \<and>
            n \<le> length (undo_stack st') \<and>
            (undo_stack st = [] \<longrightarrow> length (undo_stack st') = n)"
proof -
  define n where "n = length scs"
  define st' where "st' = edits E scs st"
  define mid where "mid = (onUndoInvoked E ^^ n) st'"
  define st'' where "st'' = (onRedoInvoked E ^^ n) mid"
  have len: "n \<le> length (undo_stack st')"
    unfolding n_def st'_def using en ch by (rule edits_undo_stack_length)
  have len0: "undo_stack st = [] \<longrightarrow> length (undo_stack st') = n"
    unfolding n_def st'_def using edits_undo_stack_length(2) [OF en ch] by simp
  have same: "store st'' = store st' \<and>
              saveToMemory E (scene (current_tab st'')) = saveToMemory E (scene (current_tab st'))"
  proof (cases "current_mode st' = EDITOR")
    case False
    then have "st'' = st'"
      by (simp add: st''_def mid_def undo_funpow_locked redo_funpow_locked)
    then show ?thesis by simp
  next
    case True
    then have mid_mode: "current_mode mid = EDITOR"
      by (simp add: mid_def undo_funpow_mode)
    have mid_store: "store mid = (undoS ^^ n) (store st')"
      unfolding mid_def using True by (rule undo_funpow_store)
    have "store st'' = (redoS ^^ n) (store mid)"
      unfolding st''_def using mid_mode by (rule redo_funpow_store)
    also have "\<dots> = (redoS ^^ n) ((undoS ^^ n) (store st'))"
      by (simp only: mid_store)
    also have "\<dots> = store st'"
      unfolding store_def using len by (rule redoS_undoS_funpow)
    finally have st: "store st'' = store st'" .
    have "saveToMemory E (scene (current_tab st'')) = saveToMemory E (scene (current_tab st'))"
    proof (cases n)
      case 0
      then show ?thesis by (simp add: st''_def mid_def)
    next
      case (Suc m)
      define X where "X = (onRedoInvoked E ^^ m) mid"
      have ne: "undo_stack st' \<noteq> []" and m: "m \<le> length (butlast (undo_stack st'))"
        using len Suc by auto
      have X_mode: "current_mode X = EDITOR"
        by (simp add: X_def redo_funpow_mode mid_mode)
      have "store X = (redoS ^^ m) (store mid)"
        unfolding X_def using mid_mode by (rule redo_funpow_store)
      also have "\<dots> = (redoS ^^ m) ((undoS ^^ m) (undoS (store st')))"
        by (simp only: mid_store Suc funpow_Suc_right o_apply)
      also have "\<dots> = (redoS ^^ m)
            ((undoS ^^ m) (butlast (undo_stack st'), last (undo_stack st'),
                           redo_stack st' @ [current_state st']))"
        using ne by (simp add: store_def)
      also have "\<dots> = (butlast (undo_stack st'), last (undo_stack st'),
                         redo_stack st' @ [current_state st'])"
        using m by (rule redoS_undoS_funpow)
      finally have X_store: "store X = (butlast (undo_stack st'), last (undo_stack st'),
                         redo_stack st' @ [current_state st'])" .
      then have X_redo: "redo_stack X \<noteq> []" "last (redo_stack X) = current_state st'"
        by (simp_all add: store_def)
      have "scs \<noteq> []"
        using Suc n_def by auto
      then have "in_sync E st'"
        unfolding st'_def using en by (intro edits_in_sync)
      then have sync: "current_state st' = saveToMemory E (scene (current_tab st'))"
        by (simp add: in_sync_def)
      have "st'' = onRedoInvoked E X"
        by (simp add: st''_def X_def Suc)
      then have "scene (current_tab st'') =
                 loadFromMemory E (clearScene E (scene (current_tab X))) (current_state st')"
        using onRedoInvoked_scene [OF X_mode X_redo(1)] X_redo(2) by simp
      then show ?thesis
        using faithful sync by simp
    qed
    with st show ?thesis by simp
  qed
  then show ?thesis
    using len len0
    by (simp add: Let_def store_def n_def [symmetric] st'_def [symmetric] st''_def mid_def)
qed

text \<open>
  Claim C3, witness: from an empty history, an edit to Root over Sequence and an edit to
  Root over Fallback; after the edits the undo stack holds the empty document and the
  first tree, and two undos lead back to the empty document.
\<close>

theorem undo_redo_duality_witness:
  "undo_enabled (window0 doc_empty doc_empty) \<and>
   changing E0 (current_state (window0 doc_empty doc_empty)) [doc_seq, doc_fallback] \<and>
   (\<forall>sc sc'. saveToMemory E0 (loadFromMemory E0 (clearScene E0 sc) (saveToMemory E0 sc'))
                     = saveToMemory E0 sc') \<and>
   (let n = length [doc_seq, doc_fallback];
             st' = edits E0 [doc_seq, doc_fallback] (window0 doc_empty doc_empty);
             st'' = (onRedoInvoked E0 ^^ n) ((onUndoInvoked E0 ^^ n) st')
         in undo_stack st'' = undo_stack st' \<and>
            current_state st'' = current_state st' \<and>
            redo_stack st'' = redo_stack st' \<and>
            saveToMemory E0 (scene (current_tab st'')) = saveToMemory E0 (scene (current_tab st')) \<and>
            n \<le> length (undo_stack st') \<and>
            (undo_stack (window0 doc_empty doc_empty) = [] \<longrightarrow> length (undo_stack st') = n)) \<and>
   undo_stack (edits E0 [doc_seq, doc_fallback] (window0 doc_empty doc_empty)) = [doc_empty, doc_seq] \<and>
   current_state ((onUndoInvoked E0 ^^ 2) (edits E0 [doc_seq, doc_fallback] (window0 doc_empty doc_empty))) = doc_empty"
proof -
  have h1: "undo_enabled (window0 doc_empty doc_empty)"
    by (simp add: window0_def)
  have h2: "changing E0 (current_state (window0 doc_empty doc_empty)) [doc_seq, doc_fallback]"
    by (simp add: window0_def E0_def doc_empty_def doc_seq_def doc_fallback_def)
  have h3: "\<forall>sc sc'. saveToMemory E0 (loadFromMemory E0 (clearScene E0 sc) (saveToMemory E0 sc'))
                     = saveToMemory E0 sc'"
    by (simp add: E0_def)
  have e1: "undo_stack (edits E0 [doc_seq, doc_fallback] (window0 doc_empty doc_empty)) = [doc_empty, doc_seq]"
    by code_simp
  have e2: "current_state ((onUndoInvoked E0 ^^ 2) (edits E0 [doc_seq, doc_fallback] (window0 doc_empty doc_empty))) = doc_empty"
    by code_simp
  show ?thesis
    using h1 h2 h3 e1 e2 undo_redo_duality [OF h1 h2 h3] by blast
qed

subsection \<open>Undo and redo in a locked editor\<close>

text \<open>
  Claim C10. Whenever the mode is not \<open>EDITOR\<close> (it is \<open>MONITOR\<close> or \<open>REPLAY\<close>),
  undo and redo leave the whole window as it is: the live scene, the current state and
  both stacks, whether the stacks are empty or not.
\<close>

theorem undo_redo_locked:
  assumes "current_mode st \<noteq> EDITOR"
  shows "onUndoInvoked E st = st \<and> onRedoInvoked E st = st"
  using assms by (simp add: onUndoInvoked_def onRedoInvoked_def)

text \<open>
  Claim C10, witness: a window in monitor mode whose two stacks are not empty.
\<close>

theorem undo_redo_locked_witness:
  "current_mode window_monitor \<noteq> EDITOR \<and>
   undo_stack window_monitor \<noteq> [] \<and> redo_stack window_monitor \<noteq> [] \<and>
   onUndoInvoked E0 window_monitor = window_monitor \<and>
   onRedoInvoked E0 window_monitor = window_monitor"
proof -
  have h: "current_mode window_monitor \<noteq> EDITOR"
    by (simp add: window_monitor_def window0_def)
  have ne: "undo_stack window_monitor \<noteq> [] \<and> redo_stack window_monitor \<noteq> []"
    by (simp add: window_monitor_def window0_def)
  show ?thesis
    using h ne undo_redo_locked [OF h, of E0] by blast
qed

subsection \<open>The snapshot push\<close>

lemma onPushUndo_scene: "current_tab (onPushUndo E st) = current_tab st"
  by (cases st; cases "current_tab st")
     (simp add: onPushUndo_def QSignalBlocker_def blockSignals_def Let_def)

lemma onPushUndo_idem: "onPushUndo E (onPushUndo E st) = onPushUndo E st"
proof (cases "undo_enabled st")
  case False
  then show ?thesis by (simp add: onPushUndo_disabled)
next
  case True
  then show ?thesis
    by (cases st; cases "current_tab st")
       (simp add: onPushUndo_def QSignalBlocker_def blockSignals_def Let_def)
qed

text \<open>
  Claim C4, as amended. When undo is enabled, the snapshot push sets the current state to
  the fresh snapshot of the live scene in every case; it pushes the previous current state
  onto the undo stack and clears the redo stack exactly when the undo stack is empty, or
  the fresh snapshot differs from the current state and the top of the undo stack differs
  from the current state; otherwise both stacks stay as they are. A second push with no
  change of the scene in between changes nothing, so the size of the undo stack stays.
\<close>

theorem onPushUndo_pushes_exactly_when:
  assumes "undo_enabled st"
  shows "let fresh = saveToMemory E (scene (current_tab st));
             st' = onPushUndo E st
         in current_state st' = fresh \<and>
            (if undo_stack st = [] \<or>
                (fresh \<noteq> current_state st \<and> last (undo_stack st) \<noteq> current_state st)
             then undo_stack st' = undo_stack st @ [current_state st] \<and> redo_stack st' = []
             else undo_stack st' = undo_stack st \<and> redo_stack st' = redo_stack st) \<and>
            onPushUndo E st' = st'"
  using assms by (simp add: Let_def onPushUndo_idem onPushUndo_enabled pushes_def)

text \<open>
  Claim C4 as stated (a push exactly when the fresh snapshot differs from the current state
  and from the top of the undo stack) fails on two inputs. With the current state on top of
  the undo stack and a scene whose snapshot differs from both, nothing is pushed, and the
  current state is overwritten all the same. With an empty undo stack and a scene whose
  snapshot is the current state, the current state is pushed.
\<close>

theorem onPushUndo_counterexample:
  "undo_enabled window_top_is_current \<and>
   saveToMemory E0 (scene (current_tab window_top_is_current)) \<noteq> current_state window_top_is_current \<and>
   saveToMemory E0 (scene (current_tab window_top_is_current)) \<noteq> last (undo_stack window_top_is_current) \<and>
   undo_stack (onPushUndo E0 window_top_is_current) = undo_stack window_top_is_current \<and>
   current_state (onPushUndo E0 window_top_is_current) = doc_fallback \<and>
   undo_enabled (window0 doc_seq doc_seq) \<and>
   saveToMemory E0 (scene (current_tab (window0 doc_seq doc_seq))) = current_state (window0 doc_seq doc_seq) \<and>
   undo_stack (onPushUndo E0 (window0 doc_seq doc_seq)) = [doc_seq]"
  by (simp add: window_top_is_current_def window0_def E0_def onPushUndo_def QSignalBlocker_def
        blockSignals_def Let_def doc_seq_def doc_fallback_def)

text \<open>
  Claim C4, witness: the first window of the counterexample, and a window with an empty
  undo stack whose scene has changed, where the push adds the previous current state.
\<close>

theorem onPushUndo_pushes_exactly_when_witness:
  "undo_enabled window_top_is_current \<and>
   (let fresh = saveToMemory E0 (scene (current_tab window_top_is_current));
             st' = onPushUndo E0 window_top_is_current
         in current_state st' = fresh \<and>
            (if undo_stack window_top_is_current = [] \<or>
                (fresh \<noteq> current_state window_top_is_current \<and>
                 last (undo_stack window_top_is_current) \<noteq> current_state window_top_is_current)
             then undo_stack st' = undo_stack window_top_is_current @ [current_state window_top_is_current] \<and>
                  redo_stack st' = []
             else undo_stack st' = undo_stack window_top_is_current \<and>
                  redo_stack st' = redo_stack window_top_is_current) \<and>
            onPushUndo E0 st' = st') \<and>
   undo_enabled (window0 doc_fallback doc_seq) \<and>
   undo_stack (onPushUndo E0 (window0 doc_fallback doc_seq)) = [doc_seq] \<and>
   current_state (onPushUndo E0 (window0 doc_fallback doc_seq)) = doc_fallback"
proof -
  have h: "undo_enabled window_top_is_current"
    by (simp add: window_top_is_current_def window0_def)
  have h': "undo_enabled (window0 doc_fallback doc_seq)"
    by (simp add: window0_def)
  have e: "undo_stack (onPushUndo E0 (window0 doc_fallback doc_seq)) = [doc_seq] \<and>
           current_state (onPushUndo E0 (window0 doc_fallback doc_seq)) = doc_fallback"
    using onPushUndo_pushes_exactly_when [OF h', of E0]
    by (simp add: window0_def E0_def Let_def)
  show ?thesis
    using h h' e onPushUndo_pushes_exactly_when [OF h, of E0] by blast
qed

subsection \<open>A tree delivered by the monitor or the replay panel\<close>

lemma lockEditing_fields:
  "undo_stack (lockEditing b st) = undo_stack st"
  "redo_stack (lockEditing b st) = redo_stack st"
  "current_state (lockEditing b st) = current_state st"
  "current_mode (lockEditing b st) = current_mode st"
  "undo_enabled (lockEditing b st) = undo_enabled st"
  "tree_nodes_model (lockEditing b st) = tree_nodes_model st"
  "dialogs (lockEditing b st) = dialogs st"
  "actionSave_enabled (lockEditing b st) = actionSave_enabled st"
  "scene (current_tab (lockEditing b st)) = scene (current_tab st)"
  "signalsBlocked (current_tab (lockEditing b st)) = signalsBlocked (current_tab st)"
  "model_registry (lockEditing b st) = model_registry st"
  by (simp_all add: lockEditing_def)

lemma onSceneChanged_fields:
  "undo_stack (onSceneChanged E st) = undo_stack st"
  "redo_stack (onSceneChanged E st) = redo_stack st"
  "current_state (onSceneChanged E st) = current_state st"
  "current_mode (onSceneChanged E st) = current_mode st"
  "undo_enabled (onSceneChanged E st) = undo_enabled st"
  "tree_nodes_model (onSceneChanged E st) = tree_nodes_model st"
  "dialogs (onSceneChanged E st) = dialogs st"
  "current_tab (onSceneChanged E st) = current_tab st"
  "other_tabs (onSceneChanged E st) = other_tabs st"
  "actionSave_enabled (onSceneChanged E st) = (length (findRoots E (scene (current_tab st))) = 1)"
  by (simp_all add: onSceneChanged_def Let_def)

lemma on_loadBehaviorTree_adopted:
  "on_loadBehaviorTree E tree st = onPushUndo E (adopted E tree st)"
  by (simp add: on_loadBehaviorTree_def adopted_def Let_def)

lemma adopted_fields:
  "undo_stack (adopted E tree st) = []"
  "redo_stack (adopted E tree st) = []"
  "current_state (adopted E tree st) = current_state st"
  "undo_enabled (adopted E tree st) = undo_enabled st"
  "current_mode (adopted E tree st) = current_mode st"
  "scene (current_tab (adopted E tree st)) =
     nodeReorder E (BuildSceneFromBehaviorTree E (clearScene E (scene (current_tab st))) tree)"
  by (simp_all add: adopted_def QSignalBlocker_def blockSignals_def Let_def updateScene_blocked
        lockEditing_def onSceneChanged_def)

text \<open>
  Claim C6, on the code. \<^verbatim>\<open>on_loadBehaviorTree\<close> clears the scene, builds the delivered
  tree in it, lays it out, and clears both stacks; its last call, \<^verbatim>\<open>onPushUndo\<close>, finds the
  undo stack empty and pushes the current state of before the delivery. Afterwards the
  redo stack is empty and the current state is the snapshot of the adopted scene, but the
  undo stack holds one entry, the stale state; the claim says that it is empty.
\<close>

theorem on_loadBehaviorTree_history:
  assumes "undo_enabled st"
  shows "undo_stack (on_loadBehaviorTree E tree st) = [current_state st] \<and>
         redo_stack (on_loadBehaviorTree E tree st) = [] \<and>
         current_state (on_loadBehaviorTree E tree st) =
           saveToMemory E (scene (current_tab (on_loadBehaviorTree E tree st))) \<and>
         scene (current_tab (on_loadBehaviorTree E tree st)) =
           nodeReorder E (BuildSceneFromBehaviorTree E (clearScene E (scene (current_tab st))) tree)"
  using assms
  by (simp add: on_loadBehaviorTree_adopted onPushUndo_enabled adopted_fields pushes_def)

text \<open>
  Claim C6, the failing input: a window in replay mode that shows Root over Sequence
  receives the tree Root over Fallback. The undo stack then holds Root over Sequence, and
  once the editor mode is chosen, undo brings that document back.
\<close>

theorem on_loadBehaviorTree_history_witness:
  "undo_enabled window_replay \<and>
   undo_stack (on_loadBehaviorTree E0 (forest doc_fallback) window_replay) = [doc_seq] \<and>
   redo_stack (on_loadBehaviorTree E0 (forest doc_fallback) window_replay) = [] \<and>
   current_state (on_loadBehaviorTree E0 (forest doc_fallback) window_replay) = doc_fallback \<and>
   scene (current_tab (on_loadBehaviorTree E0 (forest doc_fallback) window_replay)) = doc_fallback \<and>
   scene (current_tab (onUndoInvoked E0 (on_actionEditor_Mode_triggered
     (on_loadBehaviorTree E0 (forest doc_fallback) window_replay)))) = doc_seq"
proof -
  have h: "undo_enabled window_replay"
    by (simp add: window_replay_def window0_def)
  have e: "scene (current_tab (onUndoInvoked E0 (on_actionEditor_Mode_triggered
     (on_loadBehaviorTree E0 (forest doc_fallback) window_replay)))) = doc_seq"
    by code_simp
  show ?thesis
    using h e on_loadBehaviorTree_history [OF h, of E0 "forest doc_fallback"]
    by (simp add: window_replay_def window0_def E0_def doc_seq_def doc_fallback_def)
qed

subsection \<open>Saving a malformed tree\<close>

lemma save_invalid:
  assumes "\<not> valid_root_check E (scene (current_tab st))"
  shows "on_actionSave_triggered E saveDialog files st =
           (files, st\<lparr>dialogs := dialogs st @ [malformed_warning]\<rparr>)"
proof (cases "findRoots E (scene (current_tab st))")
  case Nil
  then show ?thesis
    by (simp add: on_actionSave_triggered_def Let_def malformed_warning_def)
next
  case (Cons r rs)
  show ?thesis
  proof (cases rs)
    case Nil
    with Cons assms show ?thesis
      by (simp add: on_actionSave_triggered_def Let_def valid_root_check_def malformed_warning_def)
  next
    case (Cons r' rs')
    with \<open>findRoots E (scene (current_tab st)) = r # rs\<close> show ?thesis
      by (simp add: on_actionSave_triggered_def Let_def malformed_warning_def)
  qed
qed

text \<open>
  Claim C5. For every scene with no root, with two or more roots, or with one root that
  does not have exactly one child, the save action shows the warning and returns before it
  builds any document: the file system is as it was, whatever the save dialog would answer.
\<close>

theorem save_rejects_invalid_document:
  assumes "length (findRoots E (scene (current_tab st))) = 0 \<or>
           2 \<le> length (findRoots E (scene (current_tab st))) \<or>
           (\<exists>r. findRoots E (scene (current_tab st)) = [r] \<and>
                length (getChildren E (scene (current_tab st)) r) \<noteq> 1)"
  shows "on_actionSave_triggered E saveDialog files st =
           (files, st\<lparr>dialogs := dialogs st @ [malformed_warning]\<rparr>)"
proof -
  have "\<not> valid_root_check E (scene (current_tab st))"
    using assms by (auto simp add: valid_root_check_def split: list.splits)
  then show ?thesis
    by (rule save_invalid)
qed

text \<open>
  Claim C5, witness: a scene with two roots and a scene whose root has no child; the file
  that the dialog would select keeps its text.
\<close>

theorem save_rejects_invalid_document_witness:
  "(length (findRoots E0 (scene (current_tab (window0 doc_two_roots doc_two_roots)))) = 0 \<or>
    2 \<le> length (findRoots E0 (scene (current_tab (window0 doc_two_roots doc_two_roots)))) \<or>
    (\<exists>r. findRoots E0 (scene (current_tab (window0 doc_two_roots doc_two_roots))) = [r] \<and>
         length (getChildren E0 (scene (current_tab (window0 doc_two_roots doc_two_roots))) r) \<noteq> 1)) \<and>
   on_actionSave_triggered E0 dialog_accept [''tree.xml'' \<mapsto> ''old''] (window0 doc_two_roots doc_two_roots) =
     ([''tree.xml'' \<mapsto> ''old''],
      (window0 doc_two_roots doc_two_roots)
        \<lparr>dialogs := dialogs (window0 doc_two_roots doc_two_roots) @ [malformed_warning]\<rparr>) \<and>
   on_actionSave_triggered E0 dialog_accept [''tree.xml'' \<mapsto> ''old''] (window0 doc_root doc_root) =
     ([''tree.xml'' \<mapsto> ''old''],
      (window0 doc_root doc_root)\<lparr>dialogs := dialogs (window0 doc_root doc_root) @ [malformed_warning]\<rparr>)"
proof -
  have h: "length (findRoots E0 (scene (current_tab (window0 doc_two_roots doc_two_roots)))) = 0 \<or>
    2 \<le> length (findRoots E0 (scene (current_tab (window0 doc_two_roots doc_two_roots)))) \<or>
    (\<exists>r. findRoots E0 (scene (current_tab (window0 doc_two_roots doc_two_roots))) = [r] \<and>
         length (getChildren E0 (scene (current_tab (window0 doc_two_roots doc_two_roots))) r) \<noteq> 1)"
    by (simp add: window0_def E0_def doc_two_roots_def)
  have h': "length (findRoots E0 (scene (current_tab (window0 doc_root doc_root)))) = 0 \<or>
    2 \<le> length (findRoots E0 (scene (current_tab (window0 doc_root doc_root)))) \<or>
    (\<exists>r. findRoots E0 (scene (current_tab (window0 doc_root doc_root))) = [r] \<and>
         length (getChildren E0 (scene (current_tab (window0 doc_root doc_root))) r) \<noteq> 1)"
    by (simp add: window0_def E0_def doc_root_def)
  show ?thesis
    using h save_rejects_invalid_document [OF h, of dialog_accept "[''tree.xml'' \<mapsto> ''old'']"]
      save_rejects_invalid_document [OF h', of dialog_accept "[''tree.xml'' \<mapsto> ''old'']"]
    by blast
qed

subsection \<open>Enabling the save action\<close>

lemma onPushUndo_flags:
  "actionSave_enabled (onPushUndo E st) = actionSave_enabled st"
  "other_tabs (onPushUndo E st) = other_tabs st"
  "current_mode (onPushUndo E st) = current_mode st"
  "current_layout (onPushUndo E st) = current_layout st"
  "tree_nodes_model (onPushUndo E st) = tree_nodes_model st"
  "dialogs (onPushUndo E st) = dialogs st"
  "undo_enabled (onPushUndo E st) = undo_enabled st"
  by (cases st; cases "current_tab st";
      simp add: onPushUndo_def QSignalBlocker_def blockSignals_def Let_def)+

lemma save_check_onSceneChanged: "save_check E (onSceneChanged E st)"
  by (simp add: save_check_def onSceneChanged_fields)

lemma save_check_loadSceneFromYAML: "save_check E (loadSceneFromYAML E state st)"
  by (simp add: loadSceneFromYAML_eq save_check_onSceneChanged)

lemma save_check_onPushUndo: "save_check E (onPushUndo E st) = save_check E st"
  by (simp add: save_check_def onPushUndo_flags onPushUndo_scene)

lemma save_check_lockEditing: "save_check E (lockEditing b st) = save_check E st"
  by (simp add: save_check_def lockEditing_fields)

lemma save_check_dialogs: "save_check E (st\<lparr>dialogs := ds\<rparr>) = save_check E st"
  by (simp add: save_check_def)

lemma save_check_registry: "save_check E (st\<lparr>model_registry := r\<rparr>) = save_check E st"
  by (simp add: save_check_def)

lemma save_check_models: "save_check E (st\<lparr>tree_nodes_model := ms\<rparr>) = save_check E st"
  by (simp add: save_check_def)

lemma save_check_undo: "save_check E st \<Longrightarrow> save_check E (onUndoInvoked E st)"
  by (simp add: onUndoInvoked_def Let_def save_check_loadSceneFromYAML)

lemma save_check_redo: "save_check E st \<Longrightarrow> save_check E (onRedoInvoked E st)"
  by (simp add: onRedoInvoked_def Let_def save_check_loadSceneFromYAML)

lemma save_check_loadFromXML:
  "save_check E st \<Longrightarrow> loadFromXML E document st = Inr st' \<Longrightarrow> save_check E st'"
  by (auto simp add: loadFromXML_def Let_def save_check_lockEditing save_check_dialogs
        save_check_registry save_check_models save_check_onPushUndo save_check_onSceneChanged
        save_check_loadSceneFromYAML
        split: if_splits prod.splits option.splits)

lemma adopted_save_flag:
  "actionSave_enabled (adopted E tree st) =
     (length (findRoots E
        (BuildSceneFromBehaviorTree E (clearScene E (scene (current_tab st))) tree)) = 1)"
  by (simp add: adopted_def QSignalBlocker_def blockSignals_def Let_def updateScene_blocked
        lockEditing_def onSceneChanged_def)

lemma save_check_on_loadBehaviorTree:
  assumes "\<forall>sc. length (findRoots E (nodeReorder E sc)) = length (findRoots E sc)"
  shows "save_check E (on_loadBehaviorTree E tree st)"
proof -
  have "save_check E (adopted E tree st)"
    using assms by (simp add: save_check_def adopted_save_flag adopted_fields)
  then show ?thesis
    by (simp only: on_loadBehaviorTree_adopted save_check_onPushUndo)
qed

text \<open>
  Claim C7, as amended. The check that enables the save action holds exactly when the live
  scene has exactly one root; the category of the root and the number of its children are
  no part of it. The check is run by the scene-changed handler and at the end of every
  restore, so the flag is right after undo, redo and load whenever it was right before,
  and after the load of a delivered tree when the re-layout keeps the number of roots.
\<close>

theorem save_enabled_iff_single_root:
  "actionSave_enabled (onSceneChanged E st) = (length (findRoots E (scene (current_tab st))) = 1) \<and>
   save_check E (onSceneChanged E st) \<and>
   save_check E (loadSceneFromYAML E state st) \<and>
   (save_check E st \<longrightarrow>
      save_check E (onUndoInvoked E st) \<and> save_check E (onRedoInvoked E st) \<and>
      (\<forall>st'. loadFromXML E document st = Inr st' \<longrightarrow> save_check E st')) \<and>
   ((\<forall>sc. length (findRoots E (nodeReorder E sc)) = length (findRoots E sc)) \<longrightarrow>
      save_check E (on_loadBehaviorTree E tree st))"
  using save_check_loadFromXML [of E st document] save_check_on_loadBehaviorTree [of E tree st]
  by (simp add: onSceneChanged_fields save_check_onSceneChanged save_check_loadSceneFromYAML
        save_check_undo save_check_redo)

text \<open>
  Claim C7 as stated (save is enabled exactly when the single root is of the Root category
  and has exactly one child) fails for a scene that holds a root node alone: the save
  action is enabled, and the root has no child.
\<close>

theorem save_enabled_counterexample:
  "actionSave_enabled (onSceneChanged E0 (window0 doc_root doc_root)) \<and>
   findRoots E0 (scene (current_tab (window0 doc_root doc_root))) = [DocumentNode ''Root'' ROOT [] []] \<and>
   isRootNodeModel E0 (DocumentNode ''Root'' ROOT [] []) \<and>
   length (getChildren E0 (scene (current_tab (window0 doc_root doc_root)))
             (DocumentNode ''Root'' ROOT [] [])) = 0 \<and>
   \<not> valid_root_check E0 (scene (current_tab (window0 doc_root doc_root)))"
  by (simp add: onSceneChanged_def Let_def window0_def E0_def doc_root_def valid_root_check_def)

text \<open>
  Claim C7, witness: undo restores a scene that holds a root node alone; the flag is right
  before and after, and save is enabled although the stricter check fails.
\<close>

theorem save_enabled_iff_single_root_witness:
  "save_check E0 window_undo_root \<and>
   save_check E0 (onUndoInvoked E0 window_undo_root) \<and>
   scene (current_tab (onUndoInvoked E0 window_undo_root)) = doc_root \<and>
   actionSave_enabled (onUndoInvoked E0 window_undo_root) \<and>
   \<not> valid_root_check E0 (scene (current_tab (onUndoInvoked E0 window_undo_root)))"
proof -
  have h: "save_check E0 window_undo_root"
    by (simp add: save_check_def window_undo_root_def window0_def E0_def doc_empty_def)
  have s: "scene (current_tab (onUndoInvoked E0 window_undo_root)) = doc_root"
    by (simp add: onUndoInvoked_def Let_def loadSceneFromYAML_fields restored_def
          window_undo_root_def window0_def E0_def)
  have c: "save_check E0 (onUndoInvoked E0 window_undo_root)"
    using h save_enabled_iff_single_root [of E0 window_undo_root] by blast
  then have "actionSave_enabled (onUndoInvoked E0 window_undo_root) =
             (length (findRoots E0 doc_root) = 1)"
    by (simp only: save_check_def s)
  then have "actionSave_enabled (onUndoInvoked E0 window_undo_root)"
    by (simp add: E0_def doc_root_def)
  moreover have "\<not> valid_root_check E0 doc_root"
    by (simp add: valid_root_check_def E0_def doc_root_def)
  then have "\<not> valid_root_check E0 (scene (current_tab (onUndoInvoked E0 window_undo_root)))"
    by (simp add: s)
  ultimately show ?thesis
    using h s c by blast
qed

subsection \<open>Toggling the orientation\<close>

lemma scenes_relayout_tabs:
  "map (\<lambda>(name, tab). scene tab) (relayout_tabs E new_layout tabs) =
   map (relayout E new_layout) (map (\<lambda>(name, tab). scene tab) tabs)"
  by (induction tabs) (auto simp add: relayout_tabs_def)

lemma scenes_laid_out: "scenes (laid_out E new_layout st) = map (relayout E new_layout) (scenes st)"
  by (simp add: scenes_def laid_out_def scenes_relayout_tabs)

lemma scenes_onPushUndo: "scenes (onPushUndo E st) = scenes st"
  by (simp add: scenes_def onPushUndo_scene onPushUndo_flags)

lemma refreshNodesLayout_eq:
  "refreshNodesLayout E new_layout st =
     (if list_ex (\<lambda>sc. layout E sc \<noteq> new_layout) (scenes st)
      then onPushUndo E (laid_out E new_layout st) else laid_out E new_layout st)"
  by (cases st; cases "current_tab st")
     (auto simp add: refreshNodesLayout_def QSignalBlocker_def blockSignals_def Let_def
        updateScene_blocked laid_out_def scenes_def)

lemma laid_out_fields:
  "undo_stack (laid_out E new_layout st) = undo_stack st"
  "redo_stack (laid_out E new_layout st) = redo_stack st"
  "current_state (laid_out E new_layout st) = current_state st"
  "current_layout (laid_out E new_layout st) = new_layout"
  "undo_enabled (laid_out E new_layout st) = undo_enabled st"
  by (simp_all add: laid_out_def)

lemma onPushUndo_at_most_one:
  "(undo_stack (onPushUndo E st) = undo_stack st \<and> redo_stack (onPushUndo E st) = redo_stack st) \<or>
   (undo_stack (onPushUndo E st) = undo_stack st @ [current_state st] \<and>
    redo_stack (onPushUndo E st) = [])"
  by (cases "undo_enabled st") (simp_all add: onPushUndo_disabled onPushUndo_enabled)

text \<open>
  Claim C8, as amended. A toggle of the orientation lays out every scene whose layout
  differs from the new orientation and leaves the others; if at least one scene differed,
  the snapshot push runs once, otherwise it does not run. So at most one entry is added to
  the undo stack, and only if a scene changed; whether the one push adds an entry follows
  the push's own condition. If no scene differed, both stacks and the current state are
  unchanged.
\<close>

theorem layout_toggle_effect:
  "let new_layout = (if current_layout st = Horizontal then Vertical else Horizontal);
       changed = list_ex (\<lambda>sc. layout E sc \<noteq> new_layout) (scenes st);
       st' = on_toolButtonLayout_clicked E st
   in scenes st' = map (relayout E new_layout) (scenes st) \<and>
      current_layout st' = new_layout \<and>
      st' = (if changed then onPushUndo E (laid_out E new_layout st)
             else laid_out E new_layout st) \<and>
      (if changed
       then (undo_stack st' = undo_stack st \<and> redo_stack st' = redo_stack st) \<or>
            (undo_stack st' = undo_stack st @ [current_state st] \<and> redo_stack st' = [])
       else undo_stack st' = undo_stack st \<and> redo_stack st' = redo_stack st \<and>
            current_state st' = current_state st)"
  using onPushUndo_at_most_one [of E "laid_out E Vertical st"]
    onPushUndo_at_most_one [of E "laid_out E Horizontal st"]
  by (simp add: on_toolButtonLayout_clicked_def Let_def refreshNodesLayout_eq scenes_onPushUndo
        scenes_laid_out onPushUndo_flags laid_out_fields)

text \<open>
  Claim C8 as stated (the change is pushed onto the undo history if and only if a layout
  changed) fails after the same tree has been loaded twice: the current state is then on
  top of the undo stack. The toggle lays the scene out vertically, and both stacks stay as
  they were.
\<close>

theorem layout_toggle_counterexample:
  "undo_enabled window_loaded_twice \<and>
   current_layout window_loaded_twice = Horizontal \<and>
   layout E0 (scene (current_tab window_loaded_twice)) \<noteq> Vertical \<and>
   layout E0 (scene (current_tab (on_toolButtonLayout_clicked E0 window_loaded_twice))) = Vertical \<and>
   undo_stack (on_toolButtonLayout_clicked E0 window_loaded_twice) = undo_stack window_loaded_twice \<and>
   redo_stack (on_toolButtonLayout_clicked E0 window_loaded_twice) = redo_stack window_loaded_twice"
  by code_simp

text \<open>
  Claim C8, witness: in a window with an empty history, the toggle lays out the one scene
  and pushes the previous current state; when the scene already has the new orientation,
  nothing is pushed.
\<close>

theorem layout_toggle_effect_witness:
  "(let new_layout = (if current_layout (window0 doc_seq doc_seq) = Horizontal then Vertical else Horizontal);
       changed = list_ex (\<lambda>sc. layout E0 sc \<noteq> new_layout) (scenes (window0 doc_seq doc_seq));
       st' = on_toolButtonLayout_clicked E0 (window0 doc_seq doc_seq)
   in scenes st' = map (relayout E0 new_layout) (scenes (window0 doc_seq doc_seq)) \<and>
      current_layout st' = new_layout \<and>
      st' = (if changed then onPushUndo E0 (laid_out E0 new_layout (window0 doc_seq doc_seq))
             else laid_out E0 new_layout (window0 doc_seq doc_seq)) \<and>
      (if changed
       then (undo_stack st' = undo_stack (window0 doc_seq doc_seq) \<and>
             redo_stack st' = redo_stack (window0 doc_seq doc_seq)) \<or>
            (undo_stack st' = undo_stack (window0 doc_seq doc_seq) @ [current_state (window0 doc_seq doc_seq)] \<and>
             redo_stack st' = [])
       else undo_stack st' = undo_stack (window0 doc_seq doc_seq) \<and>
            redo_stack st' = redo_stack (window0 doc_seq doc_seq) \<and>
            current_state st' = current_state (window0 doc_seq doc_seq))) \<and>
   undo_stack (on_toolButtonLayout_clicked E0 (window0 doc_seq doc_seq)) = [doc_seq] \<and>
   scenes (on_toolButtonLayout_clicked E0 (window0 doc_seq doc_seq)) = [doc_seq\<lparr>orientation := Vertical\<rparr>] \<and>
   undo_stack (on_toolButtonLayout_clicked E0
     ((window0 (doc_seq\<lparr>orientation := Vertical\<rparr>) doc_seq)\<lparr>current_layout := Horizontal\<rparr>)) = []"
proof -
  have e: "undo_stack (on_toolButtonLayout_clicked E0 (window0 doc_seq doc_seq)) = [doc_seq] \<and>
   scenes (on_toolButtonLayout_clicked E0 (window0 doc_seq doc_seq)) = [doc_seq\<lparr>orientation := Vertical\<rparr>] \<and>
   undo_stack (on_toolButtonLayout_clicked E0
     ((window0 (doc_seq\<lparr>orientation := Vertical\<rparr>) doc_seq)\<lparr>current_layout := Horizontal\<rparr>)) = []"
    by code_simp
  show ?thesis
    using e layout_toggle_effect [of "window0 doc_seq doc_seq" E0] by blast
qed

subsection \<open>Signals emitted during a restore\<close>

lemma relayout_emissions: "relayout (E\<lparr>emissions := k\<rparr>) = relayout E"
  by (simp add: fun_eq_iff relayout_def Let_def)

lemma emissions_irrelevant:
  "onSceneChanged (E\<lparr>emissions := k\<rparr>) = onSceneChanged E"
  "onPushUndo (E\<lparr>emissions := k\<rparr>) = onPushUndo E"
  "relayout_tabs (E\<lparr>emissions := k\<rparr>) = relayout_tabs E"
  "restored (E\<lparr>emissions := k\<rparr>) = restored E"
  by (simp_all add: fun_eq_iff onSceneChanged_def onPushUndo_def relayout_tabs_def
        restored_def relayout_emissions)

lemma loadSceneFromYAML_emissions:
  "loadSceneFromYAML (E\<lparr>emissions := k\<rparr>) state st = loadSceneFromYAML E state st"
  by (simp add: loadSceneFromYAML_eq emissions_irrelevant)

lemma onUndoInvoked_emissions: "onUndoInvoked (E\<lparr>emissions := k\<rparr>) st = onUndoInvoked E st"
  by (simp add: onUndoInvoked_def loadSceneFromYAML_emissions)

lemma onRedoInvoked_emissions: "onRedoInvoked (E\<lparr>emissions := k\<rparr>) st = onRedoInvoked E st"
  by (simp add: onRedoInvoked_def loadSceneFromYAML_emissions)

lemma QSignalBlocker_updateScene:
  "QSignalBlocker (updateScene E f) st =
     st\<lparr>current_tab := (current_tab st)\<lparr>scene := f (scene (current_tab st))\<rparr>\<rparr>"
  by (cases st; cases "current_tab st")
     (simp add: QSignalBlocker_def blockSignals_def updateScene_blocked)

lemma blocked_updateScene:
  "updateScene E f (blockSignals True st) =
     blockSignals True (st\<lparr>current_tab := (current_tab st)\<lparr>scene := f (scene (current_tab st))\<rparr>\<rparr>)"
  by (simp add: blockSignals_def updateScene_blocked)

lemma blocked_updateScene2:
  "updateScene E g (updateScene E f (blockSignals True st)) =
     blockSignals True (st\<lparr>current_tab := (current_tab st)\<lparr>scene := g (f (scene (current_tab st)))\<rparr>\<rparr>)"
  by (simp add: blockSignals_def updateScene_blocked)

lemma loadFromXML_emissions:
  "loadFromXML (E\<lparr>emissions := k\<rparr>) document st = loadFromXML E document st"
  by (simp add: loadFromXML_def QSignalBlocker_updateScene blocked_updateScene
        blocked_updateScene2 loadSceneFromYAML_emissions emissions_irrelevant Let_def
        split: prod.splits option.splits)

lemma on_loadBehaviorTree_emissions:
  "on_loadBehaviorTree (E\<lparr>emissions := k\<rparr>) tree st = on_loadBehaviorTree E tree st"
  by (cases st; cases "current_tab st")
     (simp add: on_loadBehaviorTree_def QSignalBlocker_def blockSignals_def updateScene_blocked
        onSceneChanged_fields emissions_irrelevant Let_def)

subsection \<open>The cases of a load\<close>

lemma loadFromXML_eq:
  "loadFromXML E document st =
     (if ErrorID document \<noteq> 0 then Inr (lockEditing (current_mode st \<noteq> EDITOR) st)
      else
        case ReadTreeNodesModel E (RootElement document) (model_registry st) (tree_nodes_model st) of
          ((registry, models), Some err) \<Rightarrow>
            if is_runtime_error err
            then Inr (st\<lparr>model_registry := registry, tree_nodes_model := models,
                        dialogs := dialogs st @ [Critical ''Error'' (what err)]\<rparr>)
            else Inl (Uncaught err)
        | ((registry, models), None) \<Rightarrow>
            (case RootElement document of
               None \<Rightarrow> Inl NullDereference
             | Some root \<Rightarrow>
                 (case CreateTreeInSceneFromXML E (FirstChildElement root ''BehaviorTree'')
                         registry (clearScene E (scene (current_tab st))) of
                    (sc, None) \<Rightarrow>
                      Inr (lockEditing (current_mode st \<noteq> EDITOR)
                        (onPushUndo E (onSceneChanged E
                           (st\<lparr>model_registry := registry, tree_nodes_model := models,
                               current_tab := (current_tab st)\<lparr>scene := nodeReorder E sc\<rparr>\<rparr>))))
                  | (sc, Some err) \<Rightarrow>
                      if is_runtime_error err \<or> is_logic_error err
                      then Inr (lockEditing (current_mode st \<noteq> EDITOR)
                             ((loadSceneFromYAML E (current_state st)
                                 (st\<lparr>model_registry := registry, tree_nodes_model := models,
                                     current_tab := (current_tab st)\<lparr>scene := sc\<rparr>\<rparr>))
                              \<lparr>dialogs := dialogs st @ [parse_warning (what err)]\<rparr>))
                      else Inl (Uncaught err))))"
  by (cases st; cases "current_tab st")
     (simp add: loadFromXML_def QSignalBlocker_def blockSignals_def updateScene_blocked Let_def
        onPushUndo_flags onSceneChanged_fields loadSceneFromYAML_fields parse_warning_def
        split: prod.splits option.splits)

lemma loadFromXML_store:
  assumes "loadFromXML E document st = Inr st'"
  shows "(undo_stack st' = undo_stack st \<and> redo_stack st' = redo_stack st \<and>
          current_state st' = current_state st) \<or>
         (current_state st' = saveToMemory E (scene (current_tab st')) \<and>
          (undo_stack st' = undo_stack st \<or> undo_stack st' = undo_stack st @ [current_state st]))"
proof (cases "undo_enabled st")
  case False
  with assms show ?thesis
    by (auto simp add: loadFromXML_eq lockEditing_fields
          loadSceneFromYAML_fields onPushUndo_disabled onSceneChanged_fields
          split: if_splits prod.splits option.splits)
next
  case True
  with assms show ?thesis
    by (auto simp add: loadFromXML_eq lockEditing_fields
          loadSceneFromYAML_fields onPushUndo_enabled onSceneChanged_fields
          split: if_splits prod.splits option.splits)
qed

text \<open>
  Claim C9. While a restore is in progress the snapshot push does not fire. The push
  returns at once while undo is disabled, and a signal of the current container reaches no
  slot while its signals are blocked. So the restore leaves both stacks and the current
  state as they are, also when its re-layout asks for a push, and the results of the
  restore, of undo, of redo and of both loads do not depend on how many signals the scene
  operations emit. A load that returns has either kept the store, or has taken one
  snapshot, of the scene it ends with, and pushed at most the former current state.
\<close>

theorem restore_suppresses_snapshot_push:
  "(\<not> undo_enabled st \<longrightarrow> onPushUndo E st = st) \<and>
   (signalsBlocked (current_tab st) \<longrightarrow> (emit_undoableChange E ^^ n) st = st) \<and>
   undo_stack (loadSceneFromYAML E state st) = undo_stack st \<and>
   redo_stack (loadSceneFromYAML E state st) = redo_stack st \<and>
   current_state (loadSceneFromYAML E state st) = current_state st \<and>
   loadSceneFromYAML (E\<lparr>emissions := k\<rparr>) state st = loadSceneFromYAML E state st \<and>
   onUndoInvoked (E\<lparr>emissions := k\<rparr>) st = onUndoInvoked E st \<and>
   onRedoInvoked (E\<lparr>emissions := k\<rparr>) st = onRedoInvoked E st \<and>
   loadFromXML (E\<lparr>emissions := k\<rparr>) document st = loadFromXML E document st \<and>
   on_loadBehaviorTree (E\<lparr>emissions := k\<rparr>) tree st = on_loadBehaviorTree E tree st \<and>
   (\<forall>st'. loadFromXML E document st = Inr st' \<longrightarrow>
      (undo_stack st' = undo_stack st \<and> redo_stack st' = redo_stack st \<and>
       current_state st' = current_state st) \<or>
      (current_state st' = saveToMemory E (scene (current_tab st')) \<and>
       (undo_stack st' = undo_stack st \<or> undo_stack st' = undo_stack st @ [current_state st])))"
  using loadFromXML_store [of E document st]
  by (simp add: onPushUndo_disabled emit_blocked loadSceneFromYAML_fields
        loadSceneFromYAML_emissions onUndoInvoked_emissions onRedoInvoked_emissions
        loadFromXML_emissions on_loadBehaviorTree_emissions)

text \<open>
  Claim C9, witness: a window as it is during a restore (signals blocked, undo disabled,
  the scene not yet that of the current state), and an undo whose scene operations emit
  signals.
\<close>

theorem restore_suppresses_snapshot_push_witness:
  "\<not> undo_enabled window_restoring \<and> onPushUndo E0 window_restoring = window_restoring \<and>
   signalsBlocked (current_tab window_restoring) \<and>
   (emit_undoableChange E0 ^^ 3) window_restoring = window_restoring \<and>
   saveToMemory E0 (scene (current_tab window_restoring)) \<noteq> current_state window_restoring \<and>
   undo_stack (loadSceneFromYAML E0 doc_seq window_restoring) = [doc_root] \<and>
   undo_stack (onUndoInvoked E0 window_undo_root) = [] \<and>
   current_state (onUndoInvoked E0 window_undo_root) = doc_root \<and>
   redo_stack (onUndoInvoked E0 window_undo_root) = [doc_empty]"
proof -
  have h1: "\<not> undo_enabled window_restoring"
    and h2: "signalsBlocked (current_tab window_restoring)"
    and h3: "saveToMemory E0 (scene (current_tab window_restoring)) \<noteq> current_state window_restoring"
    and u: "undo_stack window_restoring = [doc_root]"
    by (simp_all add: window_restoring_def window0_def E0_def doc_empty_def doc_seq_def)
  have e: "undo_stack (onUndoInvoked E0 window_undo_root) = [] \<and>
   current_state (onUndoInvoked E0 window_undo_root) = doc_root \<and>
   redo_stack (onUndoInvoked E0 window_undo_root) = [doc_empty]"
    by code_simp
  show ?thesis
    using h1 h2 h3 u e
      restore_suppresses_snapshot_push [of window_restoring E0 3 doc_seq]
    by simp
qed

subsection \<open>A load that fails\<close>

text \<open>The example of the specification loads: its model section registers ActionA and
  ActionB, and the scene shows Root over Sequence over the two actions.\<close>

lemma document_example_loads:
  "map_sum id (\<lambda>st. (scene (current_tab st), tree_nodes_model st, dialogs st))
     (loadFromXML E0 document_example (window0 doc_root doc_root)) =
   Inr (\<lparr>forest = [DocumentNode ''Root'' ROOT []
                     [DocumentNode ''Sequence'' CONTROL []
                        [DocumentNode ''ActionA'' ACTION [] [],
                         DocumentNode ''ActionB'' ACTION [] []]]],
          orientation = Horizontal\<rparr>,
        [(''ActionA'', \<lparr>node_type = ACTION, params = []\<rparr>),
         (''ActionB'', \<lparr>node_type = ACTION, params = []\<rparr>)],
        [])"
  by code_simp

text \<open>
  Claim C2, on the code. \<^verbatim>\<open>loadFromXML\<close> keeps the current state before it builds the tree
  (line 163) and reloads the scene from it when the build fails (line 185), with a
  warning: a rollback is attempted. What a failed load does, path by path:

  \<^item> the text does not parse (line 152 has no else): only \<^verbatim>\<open>lockEditing\<close> runs, and no
    message is shown;
  \<^item> the document parses and has no root element, and the reader of the model section
    returns: line 168 goes through the null pointer, and the call does not return;
  \<^item> the reader of the model section throws a runtime error: the scene, the current state
    and both stacks are untouched and the message of the error is shown, and the registry
    and the TreeNodesModel are as the reader left them;
  \<^item> building the tree throws a runtime or logic error: the scene is rebuilt from the
    current state, so it has the snapshot it had before the load (the current state being
    that snapshot, and snapshots being faithful), the current state and both stacks are
    unchanged and a warning is shown whose text is not empty, and the registry and the
    TreeNodesModel are the ones read from the failed document, not those of before the
    load.
\<close>

theorem loadFromXML_failure_paths:
  "(ErrorID document \<noteq> 0 \<longrightarrow>
      loadFromXML E document st = Inr (lockEditing (current_mode st \<noteq> EDITOR) st) \<and>
      dialogs (lockEditing (current_mode st \<noteq> EDITOR) st) = dialogs st) \<and>
   (ErrorID document = 0 \<and> RootElement document = None \<and>
    ReadTreeNodesModel E None (model_registry st) (tree_nodes_model st) = (read, None) \<longrightarrow>
      loadFromXML E document st = Inl NullDereference) \<and>
   (ErrorID document = 0 \<and>
    ReadTreeNodesModel E (RootElement document) (model_registry st) (tree_nodes_model st) =
      ((registry', models'), Some err') \<and>
    is_runtime_error err' \<longrightarrow>
      loadFromXML E document st =
        Inr (st\<lparr>model_registry := registry', tree_nodes_model := models',
                dialogs := dialogs st @ [Critical ''Error'' (what err')]\<rparr>)) \<and>
   (ErrorID document = 0 \<and> RootElement document = Some root \<and>
    ReadTreeNodesModel E (Some root) (model_registry st) (tree_nodes_model st) =
      ((registry, models), None) \<and>
    CreateTreeInSceneFromXML E (FirstChildElement root ''BehaviorTree'') registry
      (clearScene E (scene (current_tab st))) = (partial, Some err) \<and>
    (is_runtime_error err \<or> is_logic_error err) \<longrightarrow>
      (\<exists>st'. loadFromXML E document st = Inr st' \<and>
         scene (current_tab st') = loadFromMemory E (clearScene E partial) (current_state st) \<and>
         current_state st' = current_state st \<and>
         undo_stack st' = undo_stack st \<and>
         redo_stack st' = redo_stack st \<and>
         dialogs st' = dialogs st @ [parse_warning (what err)] \<and>
         (\<exists>title text. parse_warning (what err) = Warning title text \<and> text \<noteq> []) \<and>
         model_registry st' = registry \<and>
         tree_nodes_model st' = models \<and>
         (in_sync E st \<and>
          (\<forall>sc sc'. saveToMemory E (loadFromMemory E (clearScene E sc) (saveToMemory E sc'))
               = saveToMemory E sc') \<longrightarrow>
          saveToMemory E (scene (current_tab st')) = saveToMemory E (scene (current_tab st)))))"
proof (intro conjI impI)
  assume "ErrorID document \<noteq> 0"
  then show "loadFromXML E document st = Inr (lockEditing (current_mode st \<noteq> EDITOR) st)"
    by (simp add: loadFromXML_eq)
next
  show "dialogs (lockEditing (current_mode st \<noteq> EDITOR) st) = dialogs st"
    by (simp add: lockEditing_fields)
next
  assume "ErrorID document = 0 \<and> RootElement document = None \<and>
    ReadTreeNodesModel E None (model_registry st) (tree_nodes_model st) = (read, None)"
  then show "loadFromXML E document st = Inl NullDereference"
    by (cases read) (simp add: loadFromXML_eq)
next
  assume "ErrorID document = 0 \<and>
    ReadTreeNodesModel E (RootElement document) (model_registry st) (tree_nodes_model st) =
      ((registry', models'), Some err') \<and>
    is_runtime_error err'"
  then show "loadFromXML E document st =
        Inr (st\<lparr>model_registry := registry', tree_nodes_model := models',
                dialogs := dialogs st @ [Critical ''Error'' (what err')]\<rparr>)"
    by (simp add: loadFromXML_eq)
next
  assume "ErrorID document = 0 \<and> RootElement document = Some root \<and>
    ReadTreeNodesModel E (Some root) (model_registry st) (tree_nodes_model st) =
      ((registry, models), None) \<and>
    CreateTreeInSceneFromXML E (FirstChildElement root ''BehaviorTree'') registry
      (clearScene E (scene (current_tab st))) = (partial, Some err) \<and>
    (is_runtime_error err \<or> is_logic_error err)"
  then show "\<exists>st'. loadFromXML E document st = Inr st' \<and>
         scene (current_tab st') = loadFromMemory E (clearScene E partial) (current_state st) \<and>
         current_state st' = current_state st \<and>
         undo_stack st' = undo_stack st \<and>
         redo_stack st' = redo_stack st \<and>
         dialogs st' = dialogs st @ [parse_warning (what err)] \<and>
         (\<exists>title text. parse_warning (what err) = Warning title text \<and> text \<noteq> []) \<and>
         model_registry st' = registry \<and>
         tree_nodes_model st' = models \<and>
         (in_sync E st \<and>
          (\<forall>sc sc'. saveToMemory E (loadFromMemory E (clearScene E sc) (saveToMemory E sc'))
               = saveToMemory E sc') \<longrightarrow>
          saveToMemory E (scene (current_tab st')) = saveToMemory E (scene (current_tab st)))"
    by (auto simp add: loadFromXML_eq lockEditing_fields loadSceneFromYAML_fields restored_def
          in_sync_def parse_warning_def)
qed

text \<open>
  Claim C2, the failing inputs. A window that shows Root over Sequence, with an empty TreeNodesModel
  and the registry of the constructor, is given four documents. A text that is not XML:
  the window is as before and shows no message. A document with no root element, with a
  reader that reads nothing and returns: the call does not return. A document with a
  model entry that has no ID: the message of the reader is shown. A document whose model
  section declares Foo and whose tree refers to Bar, which is registered nowhere: the
  scene, the current state and the stacks are those of before the load, a warning is
  shown, and the TreeNodesModel and the registry hold Foo.
\<close>

theorem loadFromXML_failure_paths_witness:
  "ErrorID document_unparsable \<noteq> 0 \<and>
   loadFromXML E0 document_unparsable (window0 doc_seq doc_seq) = Inr (window0 doc_seq doc_seq) \<and>
   dialogs (window0 doc_seq doc_seq) = [] \<and>
   ErrorID document_no_root = 0 \<and> RootElement document_no_root = None \<and>
   loadFromXML (E0\<lparr>ReadTreeNodesModel := (\<lambda>root registry models. ((registry, models), None))\<rparr>)
     document_no_root (window0 doc_seq doc_seq) = Inl NullDereference \<and>
   ErrorID document_malformed_entry = 0 \<and>
   loadFromXML E0 document_malformed_entry (window0 doc_seq doc_seq) =
     Inr ((window0 doc_seq doc_seq)\<lparr>dialogs := [Critical ''Error'' ''malformed TreeNodesModel entry'']\<rparr>) \<and>
   ErrorID document_unregistered = 0 \<and>
   in_sync E0 (window0 doc_seq doc_seq) \<and>
   (\<forall>sc sc'. saveToMemory E0 (loadFromMemory E0 (clearScene E0 sc) (saveToMemory E0 sc'))
                     = saveToMemory E0 sc') \<and>
   tree_nodes_model (window0 doc_seq doc_seq) = [] \<and>
   model_registry (window0 doc_seq doc_seq) = constructor_registry \<and>
   (\<exists>st'. loadFromXML E0 document_unregistered (window0 doc_seq doc_seq) = Inr st' \<and>
           scene (current_tab st') = doc_seq \<and>
           current_state st' = doc_seq \<and>
           undo_stack st' = [] \<and>
           redo_stack st' = [] \<and>
           dialogs st' = [parse_warning ''reference to an unregistered ID''] \<and>
           model_registry st' = constructor_registry @ [(''Foo'', ACTION)] \<and>
           tree_nodes_model st' = [(''Foo'', \<lparr>node_type = ACTION, params = []\<rparr>)] \<and>
           saveToMemory E0 (scene (current_tab st')) =
             saveToMemory E0 (scene (current_tab (window0 doc_seq doc_seq))))"
proof -
  let ?root = "XMLElement ''root'' []
        [XMLElement ''BehaviorTree'' [] [XMLElement ''Sequence'' [] [XMLElement ''Bar'' [] []]],
         XMLElement ''TreeNodesModel'' [] [XMLElement ''Action'' [(''ID'', ''Foo'')] []]]"
  let ?w = "window0 doc_seq doc_seq"
  let ?E1 = "E0\<lparr>ReadTreeNodesModel := (\<lambda>root registry models. ((registry, models), None))\<rparr>"
  let ?err = "runtime_error ''reference to an unregistered ID''"
  have v: "loadFromMemory E0 (clearScene E0 (doc_seq\<lparr>forest := []\<rparr>)) doc_seq = doc_seq"
    "current_state ?w = doc_seq" "undo_stack ?w = []" "redo_stack ?w = []" "dialogs ?w = []"
    "tree_nodes_model ?w = []" "model_registry ?w = constructor_registry"
    by (simp_all add: E0_def window0_def)
  have u1: "ErrorID document_unparsable \<noteq> 0"
    by (simp add: document_unparsable_def)
  have u2: "lockEditing (current_mode ?w \<noteq> EDITOR) ?w = ?w"
    by (simp add: lockEditing_def window0_def)
  have unparsable: "loadFromXML E0 document_unparsable ?w = Inr ?w"
    using loadFromXML_failure_paths [of document_unparsable E0 ?w] u1
    by (simp only: u2) simp
  have n1: "ErrorID document_no_root = 0" and n2: "RootElement document_no_root = None"
    by (simp_all add: document_no_root_def)
  have n3: "ReadTreeNodesModel ?E1 None (model_registry ?w) (tree_nodes_model ?w) =
              ((model_registry ?w, tree_nodes_model ?w), None)"
    by simp
  have no_root: "loadFromXML ?E1 document_no_root ?w = Inl NullDereference"
    using loadFromXML_failure_paths [of document_no_root ?E1 ?w
        "(model_registry ?w, tree_nodes_model ?w)"] n1 n2 n3
    by blast
  have g1: "ErrorID document_malformed_entry = 0"
    by (simp add: document_malformed_entry_def)
  have g2: "ReadTreeNodesModel E0 (RootElement document_malformed_entry) (model_registry ?w)
              (tree_nodes_model ?w) =
              ((model_registry ?w, tree_nodes_model ?w),
               Some (runtime_error ''malformed TreeNodesModel entry''))"
    by (simp add: E0_def read_TreeNodesModel_def document_malformed_entry_def)
  have g3: "?w\<lparr>model_registry := model_registry ?w, tree_nodes_model := tree_nodes_model ?w,
               dialogs := ds\<rparr> = ?w\<lparr>dialogs := ds\<rparr>" for ds
    by simp
  have malformed: "loadFromXML E0 document_malformed_entry ?w =
     Inr (?w\<lparr>dialogs := [Critical ''Error'' ''malformed TreeNodesModel entry'']\<rparr>)"
    using loadFromXML_failure_paths [of document_malformed_entry E0 ?w _ "model_registry ?w"
        "tree_nodes_model ?w" "runtime_error ''malformed TreeNodesModel entry''"] g1 g2
    by (simp add: g3 v(5))
  have h1: "ErrorID document_unregistered = 0"
    and h2: "RootElement document_unregistered = Some ?root"
    by (simp_all add: document_unregistered_def)
  have h3: "ReadTreeNodesModel E0 (Some ?root) (model_registry ?w) (tree_nodes_model ?w) =
              ((constructor_registry @ [(''Foo'', ACTION)],
                [(''Foo'', \<lparr>node_type = ACTION, params = []\<rparr>)]), None)"
    by (simp add: E0_def read_TreeNodesModel_def v)
  have h4: "CreateTreeInSceneFromXML E0 (FirstChildElement ?root ''BehaviorTree'')
              (constructor_registry @ [(''Foo'', ACTION)])
              (clearScene E0 (scene (current_tab ?w))) =
              (doc_seq\<lparr>forest := []\<rparr>, Some ?err)"
    by (simp add: E0_def create_tree_def window0_def constructor_registry_def)
  have h5: "is_runtime_error ?err \<or> is_logic_error ?err"
    by simp
  have h6: "in_sync E0 ?w"
    by (simp add: in_sync_def E0_def window0_def)
  have h7: "\<forall>sc sc'. saveToMemory E0 (loadFromMemory E0 (clearScene E0 sc) (saveToMemory E0 sc'))
                     = saveToMemory E0 sc'"
    by (simp add: E0_def)
  have unregistered: "\<exists>st'. loadFromXML E0 document_unregistered ?w = Inr st' \<and>
           scene (current_tab st') = doc_seq \<and>
           current_state st' = doc_seq \<and>
           undo_stack st' = [] \<and>
           redo_stack st' = [] \<and>
           dialogs st' = [parse_warning ''reference to an unregistered ID''] \<and>
           model_registry st' = constructor_registry @ [(''Foo'', ACTION)] \<and>
           tree_nodes_model st' = [(''Foo'', \<lparr>node_type = ACTION, params = []\<rparr>)] \<and>
           saveToMemory E0 (scene (current_tab st')) = saveToMemory E0 (scene (current_tab ?w))"
    using loadFromXML_failure_paths [of document_unregistered E0 ?w _ _ _ _ ?root
        "constructor_registry @ [(''Foo'', ACTION)]"
        "[(''Foo'', \<lparr>node_type = ACTION, params = []\<rparr>)]" "doc_seq\<lparr>forest := []\<rparr>" ?err]
      h1 h2 h3 h4 h5 h6 h7
    by (simp add: v) blast
  show ?thesis
    using u1 unparsable v(5) n1 n2 no_root g1 malformed h1 h6 h7 v(6) v(7) unregistered
    by blast
qed

subsection \<open>The comments of a saved document\<close>

lemma separator_illformed: "\<not> comment_wellformed separator"
  by (simp add: comment_wellformed_def separator_def)

text \<open>
  Claim C1, on the code. For a scene that passes the check of the save action, the file
  selected in the dialog receives the printed document. The document holds the three
  separator comments of 35 hyphens each, and a comment of well-formed XML holds no two
  hyphens in a row: the saved text is not well-formed XML, whatever the tree is.
\<close>

theorem saved_document_comments_illformed:
  assumes "findRoots E (scene (current_tab st)) = [r]"
    and "isRootNodeModel E r"
    and "getChildren E (scene (current_tab st)) r = [n]"
    and "result_Accepted saveDialog"
    and "selectedFiles saveDialog = [fileName]"
    and "fileName \<noteq> []"
    and "open_WriteOnly saveDialog"
  shows "on_actionSave_triggered E saveDialog files st =
           (files(fileName \<mapsto>
              Print E (saveDocument E (scene (current_tab st)) (tree_nodes_model st) n) @ [CHR 0x0A]),
            st) \<and>
         \<not> comments_wellformed (saveDocument E (scene (current_tab st)) (tree_nodes_model st) n)"
  using assms
  by (simp add: on_actionSave_triggered_def Let_def saveDocument_def separator_illformed)

text \<open>
  Claim C1, the failing input: Root over Sequence, saved to a file.
\<close>

theorem saved_document_comments_illformed_witness:
  "fst (on_actionSave_triggered E0 dialog_accept Map.empty (window0 doc_seq doc_seq)) ''tree.xml'' =
     Some (''<root><!--------------------------------------->'' @
           ''<BehaviorTree><Sequence/></BehaviorTree>'' @
           ''<!--------------------------------------->'' @
           ''<TreeNodesModel/>'' @
           ''<!--------------------------------------->'' @
           ''</root>'' @ [CHR 0x0A]) \<and>
   \<not> comments_wellformed
        (saveDocument E0 (scene (current_tab (window0 doc_seq doc_seq)))
           (tree_nodes_model (window0 doc_seq doc_seq)) (DocumentNode ''Sequence'' CONTROL [] []))"
proof -
  have h1: "findRoots E0 (scene (current_tab (window0 doc_seq doc_seq))) =
              [DocumentNode ''Root'' ROOT [] [DocumentNode ''Sequence'' CONTROL [] []]]"
    and h2: "isRootNodeModel E0 (DocumentNode ''Root'' ROOT [] [DocumentNode ''Sequence'' CONTROL [] []])"
    and h3: "getChildren E0 (scene (current_tab (window0 doc_seq doc_seq)))
               (DocumentNode ''Root'' ROOT [] [DocumentNode ''Sequence'' CONTROL [] []]) =
              [DocumentNode ''Sequence'' CONTROL [] []]"
    by (simp_all add: E0_def window0_def doc_seq_def)
  have h4: "result_Accepted dialog_accept" and h5: "selectedFiles dialog_accept = [''tree.xml'']"
    and h6: "''tree.xml'' \<noteq> []" and h7: "open_WriteOnly dialog_accept"
    by (simp_all add: dialog_accept_def)
  have p: "Print E0 (saveDocument E0 (scene (current_tab (window0 doc_seq doc_seq)))
           (tree_nodes_model (window0 doc_seq doc_seq)) (DocumentNode ''Sequence'' CONTROL [] [])) =
       ''<root><!--------------------------------------->'' @
           ''<BehaviorTree><Sequence/></BehaviorTree>'' @
           ''<!--------------------------------------->'' @
           ''<TreeNodesModel/>'' @
           ''<!--------------------------------------->'' @
           ''</root>''"
    by (simp add: E0_def saveDocument_def window0_def separator_def TreeNodesModel_element_def)
  show ?thesis
    using saved_document_comments_illformed [OF h1 h2 h3 h4 h5 h6 h7, of Map.empty]
    by (simp add: p)
qed

end
